theory Spec2Isabelle
  imports Complex_Main "HOL-Library.Multiset"
begin

section \<open>Python values used by \<open>streamlit_app.py\<close>\<close>

subsection \<open>Strings\<close>

text \<open>
  A Python \<open>str\<close> is a sequence of Unicode code points, so it is modelled as a list of
  naturals. \<open>ustr\<close> turns an ASCII literal of the source into such a list; the rupee sign
  of the f-strings is the single code point U+20B9.
\<close>

type_synonym str = "nat list"

definition ustr :: "string \<Rightarrow> str" where
  "ustr s = map of_char s"

definition rupee :: str where
  "rupee = [8377]"

text \<open>
  \<open>str.lower()\<close>. The model is exact on the ASCII letters and on the two code points
  outside ASCII whose lower case contains an ASCII letter (U+0130, which becomes \<open>i\<close>
  followed by U+0307, and the Kelvin sign U+212A, which becomes \<open>k\<close>). Every other
  code point has a lower case without ASCII letters; it is left as it is, which cannot
  change the result of a search for an ASCII word.
\<close>

definition lower_cp :: "nat \<Rightarrow> str" where
  "lower_cp c = (if 65 \<le> c \<and> c \<le> 90 then [c + 32]
                 else if c = 304 then [105, 775]
                 else if c = 8490 then [107]
                 else [c])"

definition lower :: "str \<Rightarrow> str" where
  "lower s = concat (map lower_cp s)"

text \<open>\<open>needle in haystack\<close> on strings: the needle occurs as a contiguous run.\<close>

fun is_prefix :: "str \<Rightarrow> str \<Rightarrow> bool" where
  "is_prefix [] ys = True"
| "is_prefix (x # xs) [] = False"
| "is_prefix (x # xs) (y # ys) = (x = y \<and> is_prefix xs ys)"

fun str_in :: "str \<Rightarrow> str \<Rightarrow> bool" where
  "str_in needle [] = (needle = [])"
| "str_in needle (y # ys) = (is_prefix needle (y # ys) \<or> str_in needle ys)"

subsection \<open>Binary64 floating point\<close>

text \<open>
  The rates of the data frame and the numbers computed from them are IEEE 754 binary64
  values. A finite nonzero value and \<open>+0.0\<close> are \<open>Finite q\<close> with \<open>q\<close> the exact rational
  value; \<open>-0.0\<close>, the infinities and NaN have constructors of their own.
\<close>

datatype float64 = Finite rat | NegZero | PosInf | NegInf | NaN

definition pow2 :: "int \<Rightarrow> rat" where
  "pow2 k = (if 0 \<le> k then 2 ^ nat k else 1 / 2 ^ nat (- k))"

text \<open>The number of binary digits of a natural number.\<close>

fun bit_length :: "nat \<Rightarrow> nat" where
  "bit_length n = (if n = 0 then 0 else Suc (bit_length (n div 2)))"

text \<open>\<open>ilog2 q\<close> is the exponent \<open>e\<close> with \<open>2^e \<le> q < 2^(e+1)\<close>, for \<open>q > 0\<close>.\<close>

definition ilog2 :: "rat \<Rightarrow> int" where
  "ilog2 q = (if 1 \<le> q then int (bit_length (nat \<lfloor>q\<rfloor>)) - 1
              else - int (bit_length (nat (\<lceil>1 / q\<rceil> - 1))))"

text \<open>Rounding to the nearest integer, ties to the even one.\<close>

definition round_half_even :: "rat \<Rightarrow> int" where
  "round_half_even x =
     (let f = \<lfloor>x\<rfloor>; d = x - of_int f
      in if d < 1 / 2 then f else if 1 / 2 < d then f + 1
         else if even f then f else f + 1)"

text \<open>
  \<open>round64 q\<close> rounds a magnitude \<open>q \<ge> 0\<close> to the binary64 grid (53 significant bits,
  least exponent \<open>-1022\<close>, subnormals below it), to nearest, ties to even.
\<close>

definition round64 :: "rat \<Rightarrow> rat" where
  "round64 q =
     (if q \<le> 0 then 0
      else let u = pow2 (max (ilog2 q) (- 1022) - 52)
           in of_int (round_half_even (q / u)) * u)"

text \<open>The value with sign bit \<open>neg\<close> and exact magnitude \<open>q\<close>, after rounding and overflow.\<close>

definition mk_float :: "bool \<Rightarrow> rat \<Rightarrow> float64" where
  "mk_float neg q =
     (let r = round64 q
      in if pow2 1024 \<le> r then (if neg then NegInf else PosInf)
         else if r = 0 then (if neg then NegZero else Finite 0)
         else Finite (if neg then - r else r))"

text \<open>A decimal literal of the source, such as \<open>0.8\<close>, is the nearest binary64 value.\<close>

definition lit :: "rat \<Rightarrow> float64" where
  "lit q = mk_float (q < 0) \<bar>q\<bar>"

fun is_nan :: "float64 \<Rightarrow> bool" where
  "is_nan NaN = True"
| "is_nan _ = False"

fun is_inf :: "float64 \<Rightarrow> bool" where
  "is_inf PosInf = True"
| "is_inf NegInf = True"
| "is_inf _ = False"

fun sign_bit :: "float64 \<Rightarrow> bool" where
  "sign_bit (Finite q) = (q < 0)"
| "sign_bit NegZero = True"
| "sign_bit PosInf = False"
| "sign_bit NegInf = True"
| "sign_bit NaN = False"

fun magnitude :: "float64 \<Rightarrow> rat" where
  "magnitude (Finite q) = \<bar>q\<bar>"
| "magnitude _ = 0"

definition is_zero :: "float64 \<Rightarrow> bool" where
  "is_zero x = (x = Finite 0 \<or> x = NegZero)"

definition signed_inf :: "bool \<Rightarrow> float64" where
  "signed_inf neg = (if neg then NegInf else PosInf)"

definition signed_zero :: "bool \<Rightarrow> float64" where
  "signed_zero neg = (if neg then NegZero else Finite 0)"

text \<open>\<open>x * y\<close>.\<close>

definition fmul :: "float64 \<Rightarrow> float64 \<Rightarrow> float64" where
  "fmul x y =
     (if is_nan x \<or> is_nan y then NaN
      else if is_inf x \<or> is_inf y
        then (if is_zero x \<or> is_zero y then NaN else signed_inf (sign_bit x \<noteq> sign_bit y))
      else mk_float (sign_bit x \<noteq> sign_bit y) (magnitude x * magnitude y))"

text \<open>
  \<open>x / y\<close>. The divisors of the source are the literals \<open>100000\<close> and \<open>1000\<close>; for a zero
  divisor the model follows numpy (a signed infinity, NaN for \<open>0/0\<close>).
\<close>

definition fdiv :: "float64 \<Rightarrow> float64 \<Rightarrow> float64" where
  "fdiv x y =
     (if is_nan x \<or> is_nan y then NaN
      else if is_inf x then (if is_inf y then NaN else signed_inf (sign_bit x \<noteq> sign_bit y))
      else if is_inf y then signed_zero (sign_bit x \<noteq> sign_bit y)
      else if is_zero y then (if is_zero x then NaN else signed_inf (sign_bit x \<noteq> sign_bit y))
      else mk_float (sign_bit x \<noteq> sign_bit y) (magnitude x / magnitude y))"

text \<open>
  \<open>x >= y\<close> and \<open>x < y\<close>: false as soon as one side is NaN; the two zeros are
  equal; an infinity compares by its sign with everything else.
\<close>

fun fval :: "float64 \<Rightarrow> rat" where
  "fval (Finite q) = q"
| "fval _ = 0"

fun inf_sign :: "float64 \<Rightarrow> int" where
  "inf_sign PosInf = 1"
| "inf_sign NegInf = - 1"
| "inf_sign _ = 0"

definition fge :: "float64 \<Rightarrow> float64 \<Rightarrow> bool" where
  "fge x y = (\<not> is_nan x \<and> \<not> is_nan y \<and>
     (inf_sign y < inf_sign x \<or> (inf_sign x = inf_sign y \<and> fval y \<le> fval x)))"

definition flt :: "float64 \<Rightarrow> float64 \<Rightarrow> bool" where
  "flt x y = (\<not> is_nan x \<and> \<not> is_nan y \<and>
     (inf_sign x < inf_sign y \<or> (inf_sign x = inf_sign y \<and> fval x < fval y)))"

subsection \<open>Fixed-point formatting\<close>

text \<open>The decimal digits of a natural number, most significant first.\<close>

fun digits :: "nat \<Rightarrow> str" where
  "digits n = (if n < 10 then [48 + n] else digits (n div 10) @ [48 + n mod 10])"

text \<open>\<open>zfill n s\<close> pads \<open>s\<close> with zeros on the left to \<open>n\<close> characters.\<close>

definition zfill :: "nat \<Rightarrow> str \<Rightarrow> str" where
  "zfill n s = replicate (n - length s) 48 @ s"

text \<open>
  The format specification \<open>.nf\<close> with \<open>n > 0\<close>: the exact value is rounded to \<open>n\<close>
  decimals, ties to even; the sign is kept even when the digits are all zero.
\<close>

definition fixed :: "nat \<Rightarrow> rat \<Rightarrow> str" where
  "fixed n q =
     (let k = nat (round_half_even (q * 10 ^ n))
      in digits (k div 10 ^ n) @ ustr ''.'' @ zfill n (digits (k mod 10 ^ n)))"

fun format_f :: "nat \<Rightarrow> float64 \<Rightarrow> str" where
  "format_f n NaN = ustr ''nan''"
| "format_f n PosInf = ustr ''inf''"
| "format_f n NegInf = ustr ''-inf''"
| "format_f n x = (if sign_bit x then ustr ''-'' else []) @ fixed n (magnitude x)"

section \<open>Salary formatting\<close>

text \<open>
  \<open>format_salary\<close>, lines 31 to 56. The multiplier chosen by the \<open>if\<close>/\<open>elif\<close> chain
  and the rate after line 41 are named, the rest follows the two branches. The literals
  \<open>0.8\<close>, \<open>1.2\<close> and \<open>1.5\<close> are written as the fractions \<open>4/5\<close>, \<open>6/5\<close> and \<open>3/2\<close>.
\<close>

definition multiplier :: "str \<Rightarrow> float64" where
  "multiplier experience_level =
     (if experience_level = ustr ''Fresher'' then lit (4 / 5)
      else if experience_level = ustr ''Mid-Level'' then lit (6 / 5)
      else if experience_level = ustr ''Senior'' then lit (3 / 2)
      else lit 1)"

definition adjusted :: "float64 \<Rightarrow> str \<Rightarrow> float64" where
  "adjusted rate experience_level = fmul rate (multiplier experience_level)"

definition render :: "float64 \<Rightarrow> str \<Rightarrow> str" where
  "render rate country =
     (if str_in (ustr ''india'') (lower country) then
        (if fge rate (lit 100000) then rupee @ format_f 1 (fdiv rate (lit 100000)) @ ustr '' Lakh''
         else if fge rate (lit 1000) then rupee @ format_f 1 (fdiv rate (lit 1000)) @ ustr '' Thousand''
         else rupee @ format_f 2 rate @ ustr ''/hr'')
      else
        (if fge rate (lit 100000) then ustr ''$'' @ format_f 1 (fdiv rate (lit 100000)) @ ustr ''K''
         else if fge rate (lit 1000) then ustr ''$'' @ format_f 1 (fdiv rate (lit 1000)) @ ustr ''K''
         else ustr ''$'' @ format_f 2 rate @ ustr ''/hr''))"

definition format_salary :: "float64 \<Rightarrow> str \<Rightarrow> str \<Rightarrow> str" where
  "format_salary rate country experience_level =
     render (adjusted rate experience_level) country"

section \<open>The data frame and its clean-up\<close>

text \<open>
  An entry of the column \<open>title\<close>: a text, or one of the two values pandas takes as
  missing in an object column, \<open>None\<close> and NaN. The program converts titles to text, and
  there the two differ.
\<close>

datatype cell = Text str | PyNone | PyNaN

text \<open>
  A row of the pickled frame \<open>df\<close>, with the columns the program reads. A missing entry of
  the columns \<open>country\<close> and \<open>job_type\<close> is \<open>None\<close> (\<open>fillna\<close> treats \<open>None\<close> and NaN
  alike); a missing rate is NaN, as pandas stores it. \<open>label\<close> is the row's index label.
  The column \<open>id\<close>, dropped at line 17, is not part of the model.
\<close>

record raw_job =
  label :: int
  raw_title :: cell
  raw_rate :: float64
  raw_country :: "str option"
  raw_job_type :: "str option"

text \<open>
  The pickled frame: its rows, and whether it has a column \<open>job_type\<close> at all (without
  the column, \<open>raw_job_type\<close> of its rows is not read).
\<close>

record raw_frame =
  has_job_type :: bool
  raw_rows :: "raw_job list"

text \<open>A row after line 26: the country is a string from there on.\<close>

record job =
  title :: cell
  avg_hourly_rate :: float64
  country :: str
  job_type :: "str option"

definition job_types :: "str list" where
  "job_types = [ustr ''Permanent Full-time'', ustr ''Part-time'', ustr ''Work From Home'',
                ustr ''On-site'', ustr ''Contract'']"

text \<open>
  \<open>random.choice(job_types)\<close> returns the entry at a random index below the length of
  the list. The random source is a parameter of the model: \<open>draws k\<close> is the number the
  generator yields at the \<open>k\<close>-th call, reduced here to an index.
\<close>

definition random_choice :: "nat \<Rightarrow> str" where
  "random_choice d = job_types ! (d mod length job_types)"

text \<open>
  \<open>s.fillna(pd.Series(filler))\<close> on the column \<open>job_type\<close>: the filler has the labels
  \<open>0, ..., len - 1\<close>, and pandas aligns on labels, so a missing entry is filled when the
  label of its row is one of them and stays missing otherwise.
\<close>

definition fillna_series :: "str list \<Rightarrow> raw_job \<Rightarrow> str option" where
  "fillna_series filler r =
     (case raw_job_type r of
        Some t \<Rightarrow> Some t
      | None \<Rightarrow> if 0 \<le> label r \<and> label r < int (length filler)
                then Some (filler ! nat (label r)) else None)"

text \<open>Lines 19 to 26.\<close>

definition data_cleanup :: "(nat \<Rightarrow> nat) \<Rightarrow> raw_frame \<Rightarrow> job list" where
  "data_cleanup draws df =
     (let filler = map (\<lambda>k. random_choice (draws k)) [0..<length (raw_rows df)];
          job_type_col = (if \<not> has_job_type df then map Some filler
                          else map (fillna_series filler) (raw_rows df))
      in map (\<lambda>(r, t).
           \<lparr>title = raw_title r,
            avg_hourly_rate = (if is_nan (raw_rate r) then lit 0 else raw_rate r),
            country = (case raw_country r of None \<Rightarrow> ustr ''Unknown'' | Some c \<Rightarrow> c),
            job_type = t\<rparr>) (zip (raw_rows df) job_type_col))"

section \<open>Similarity ranking\<close>

datatype error = ValueError | IndexError | KeyError | NameError

text \<open>
  The library functions the sections call are not code of this program; the model takes
  them as parameters.
  \<^item> The fitted vectorizer and \<open>cosine_similarity\<close> work row by row, so the entry of
    \<open>similarity\<close> for a title depends on the query and on the text of that title only:
    this function is \<open>score\<close>.
  \<^item> \<open>argsort\<close> is \<open>numpy.ndarray.argsort\<close>.
  \<^item> \<open>missing_text\<close> is what \<open>astype(str)\<close> followed by \<open>vectorizer.transform\<close> makes of a
    missing title. It depends on the version of pandas: the text \<open>None\<close> or \<open>nan\<close> where
    \<open>astype(str)\<close> converts missing values, an exception where it keeps them missing and
    the vectorizer rejects them.
\<close>

record library =
  score :: "str \<Rightarrow> str \<Rightarrow> real"
  argsort :: "real list \<Rightarrow> nat list"
  missing_text :: "cell \<Rightarrow> error + str"

text \<open>The document the vectorizer gets for a title: a text is taken as it is.\<close>

definition document :: "library \<Rightarrow> cell \<Rightarrow> error + str" where
  "document lib c = (case c of Text s \<Rightarrow> Inr s | _ \<Rightarrow> missing_text lib c)"

fun documents :: "library \<Rightarrow> cell list \<Rightarrow> error + str list" where
  "documents lib [] = Inr []"
| "documents lib (c # cs) =
     (case document lib c of
        Inl e \<Rightarrow> Inl e
      | Inr d \<Rightarrow> (case documents lib cs of Inl e \<Rightarrow> Inl e | Inr ds \<Rightarrow> Inr (d # ds)))"

text \<open>
  Lines 137 to 139 (and 181 to 183, 200 to 202): the titles are converted and
  vectorized, then scored against the query. \<open>cosine_similarity\<close> rejects a matrix
  without rows.
\<close>

definition similarity :: "library \<Rightarrow> str \<Rightarrow> job list \<Rightarrow> error + real list" where
  "similarity lib query corpus =
     (case documents lib (map title corpus) of
        Inl e \<Rightarrow> Inl e
      | Inr docs \<Rightarrow> if docs = [] then Inl ValueError else Inr (map (score lib query) docs))"

text \<open>
  What \<open>similarity.argsort()\<close> promises: the indices of the array, each once, in an
  order that makes the scores ascend. numpy's default sort is not stable, so the order
  of indices with equal scores is not part of the promise.
\<close>

definition is_argsort :: "real list \<Rightarrow> nat list \<Rightarrow> bool" where
  "is_argsort sim order =
     (mset order = mset [0..<length sim] \<and> sorted (map (\<lambda>i. sim ! i) order))"

text \<open>A stable argsort (what numpy computes with \<open>kind='stable'\<close>).\<close>

definition argsort_stable :: "real list \<Rightarrow> nat list" where
  "argsort_stable sim = sort_key (\<lambda>i. sim ! i) [0..<length sim]"

text \<open>The slice \<open>a[-k:]\<close> for \<open>k \<ge> 0\<close>; \<open>a[-0:]\<close> is the whole of \<open>a\<close>.\<close>

definition take_last :: "nat \<Rightarrow> 'a list \<Rightarrow> 'a list" where
  "take_last k xs = (if k = 0 then xs else drop (length xs - k) xs)"

text \<open>\<open>top_idx = similarity.argsort()[-k:][::-1]\<close>, lines 140 (\<open>k = 5\<close>) and 184 (\<open>k = 3\<close>).\<close>

definition top_idx :: "nat \<Rightarrow> nat list \<Rightarrow> nat list" where
  "top_idx k order = rev (take_last k order)"

text \<open>
  \<open>similarity.argmax()\<close>: a scan that keeps the first position of the greatest value;
  it raises on an empty array.
\<close>

fun argmax_scan :: "nat \<Rightarrow> real \<Rightarrow> nat \<Rightarrow> real list \<Rightarrow> nat" where
  "argmax_scan best best_val i [] = best"
| "argmax_scan best best_val i (x # xs) =
     (if best_val < x then argmax_scan i x (Suc i) xs
      else argmax_scan best best_val (Suc i) xs)"

fun argmax :: "real list \<Rightarrow> error + nat" where
  "argmax [] = Inl ValueError"
| "argmax (x # xs) = Inr (argmax_scan 0 x 1 xs)"

section \<open>Data frames as objects\<close>

text \<open>
  The page builds its tables from \<open>df\<close> with operations that return new frames and with
  column assignments that change a frame in place. To tell the two apart, frames live
  in a heap and variables hold addresses. A frame has the columns \<open>title\<close>,
  \<open>avg_hourly_rate\<close>, \<open>country\<close>, \<open>job_type\<close> (\<open>Jobs\<close>), these and \<open>Formatted Salary\<close>
  (\<open>With_Salary\<close>), or \<open>title\<close>, \<open>job_type\<close>, \<open>country\<close> (\<open>Matches\<close>).
\<close>

record match =
  match_title :: cell
  match_job_type :: "str option"
  match_country :: str

datatype frame = Jobs "job list" | With_Salary "(job \<times> str) list" | Matches "match list"

type_synonym heap = "frame list"

definition load :: "nat \<Rightarrow> heap \<Rightarrow> error + frame" where
  "load a h = (if a < length h then Inr (h ! a) else Inl NameError)"

definition alloc :: "frame \<Rightarrow> heap \<Rightarrow> nat \<times> heap" where
  "alloc f h = (length h, h @ [f])"

text \<open>The rows of a frame that still has exactly the four columns of \<open>df\<close>.\<close>

definition load_jobs :: "nat \<Rightarrow> heap \<Rightarrow> error + job list" where
  "load_jobs a h =
     (case load a h of
        Inl e \<Rightarrow> Inl e
      | Inr (Jobs js) \<Rightarrow> Inr js
      | Inr _ \<Rightarrow> Inl KeyError)"

text \<open>\<open>df.iloc[idx]\<close> with a list of positions: a new frame; a position out of range raises.\<close>

definition iloc :: "nat \<Rightarrow> nat list \<Rightarrow> heap \<Rightarrow> error + nat \<times> heap" where
  "iloc a idx h =
     (case load_jobs a h of
        Inl e \<Rightarrow> Inl e
      | Inr js \<Rightarrow> if list_all (\<lambda>i. i < length js) idx
                  then Inr (alloc (Jobs (map (\<lambda>i. js ! i) idx)) h)
                  else Inl IndexError)"

text \<open>\<open>df[mask]\<close> with a boolean mask computed row by row: a new frame.\<close>

definition mask_rows :: "nat \<Rightarrow> (job \<Rightarrow> bool) \<Rightarrow> heap \<Rightarrow> error + nat \<times> heap" where
  "mask_rows a keep h =
     (case load_jobs a h of
        Inl e \<Rightarrow> Inl e
      | Inr js \<Rightarrow> Inr (alloc (Jobs (filter keep js)) h))"

text \<open>\<open>f[["title", "avg_hourly_rate", "country", "job_type"]]\<close>: a new frame.\<close>

definition select_job_columns :: "nat \<Rightarrow> heap \<Rightarrow> error + nat \<times> heap" where
  "select_job_columns a h =
     (case load_jobs a h of
        Inl e \<Rightarrow> Inl e
      | Inr js \<Rightarrow> Inr (alloc (Jobs js) h))"

text \<open>\<open>f[["title", "job_type", "country"]]\<close>: a new frame.\<close>

definition select_match_columns :: "nat \<Rightarrow> heap \<Rightarrow> error + nat \<times> heap" where
  "select_match_columns a h =
     (case load_jobs a h of
        Inl e \<Rightarrow> Inl e
      | Inr js \<Rightarrow> Inr (alloc (Matches (map (\<lambda>j. \<lparr>match_title = title j,
                      match_job_type = job_type j, match_country = country j\<rparr>) js)) h))"

text \<open>
  \<open>f["Formatted Salary"] = f.apply(lambda x: format_salary(x["avg_hourly_rate"],
  x["country"], level), axis=1)\<close>: the frame at the address gets the new column.
\<close>

definition assign_formatted_salary :: "nat \<Rightarrow> str \<Rightarrow> heap \<Rightarrow> error + heap" where
  "assign_formatted_salary a level h =
     (case load_jobs a h of
        Inl e \<Rightarrow> Inl e
      | Inr js \<Rightarrow> Inr (h[a := With_Salary
                   (map (\<lambda>x. (x, format_salary (avg_hourly_rate x) (country x) level)) js)]))"

text \<open>\<open>f.reset_index(drop=True)\<close>: a new frame with the same columns and rows.\<close>

definition reset_index :: "nat \<Rightarrow> heap \<Rightarrow> error + nat \<times> heap" where
  "reset_index a h =
     (case load a h of
        Inl e \<Rightarrow> Inl e
      | Inr f \<Rightarrow> Inr (alloc f h))"

fun frame_empty :: "frame \<Rightarrow> bool" where
  "frame_empty (Jobs js) = (js = [])"
| "frame_empty (With_Salary js) = (js = [])"
| "frame_empty (Matches ms) = (ms = [])"

section \<open>The sections of the page\<close>

text \<open>
  What a section shows. Headings and styling are left out; a table is shown with the
  frame handed to \<open>st.dataframe\<close> or \<open>st.table\<close>.
\<close>

datatype element =
    Info str
  | Warning str
  | Top_Recommended frame
  | Dataframe frame
  | Matched_Roles frame
  | Resume_Match cell str str "str option"

text \<open>
  Every section takes the address of \<open>df\<close>, its widget values and the heap, and returns
  what it shows, or the exception that ends the run, with the heap it leaves.
\<close>

text \<open>Lines 136 to 147.\<close>

definition recommendation_engine ::
  "library \<Rightarrow> nat \<Rightarrow> str \<Rightarrow> heap \<Rightarrow> (error + element list) \<times> heap" where
  "recommendation_engine lib df job_input h =
     (if job_input \<noteq> [] then
        (case load_jobs df h of
           Inl e \<Rightarrow> (Inl e, h)
         | Inr corpus \<Rightarrow>
        (case similarity lib job_input corpus of
           Inl e \<Rightarrow> (Inl e, h)
         | Inr sim \<Rightarrow>
        (case iloc df (top_idx 5 (argsort lib sim)) h of
           Inl e \<Rightarrow> (Inl e, h)
         | Inr (picked, h1) \<Rightarrow>
        (case select_job_columns picked h1 of
           Inl e \<Rightarrow> (Inl e, h1)
         | Inr (results, h2) \<Rightarrow>
        (case assign_formatted_salary results (ustr ''Mid-Level'') h2 of
           Inl e \<Rightarrow> (Inl e, h2)
         | Inr h3 \<Rightarrow>
        (case reset_index results h3 of
           Inl e \<Rightarrow> (Inl e, h3)
         | Inr (shown, h4) \<Rightarrow>
        (case load shown h4 of
           Inl e \<Rightarrow> (Inl e, h4)
         | Inr table \<Rightarrow> (Inr [Top_Recommended table], h4))))))))
      else (Inr [Info (ustr
        ''Enter a job title or skill to get personalized job recommendations.'')], h))"

text \<open>
  The two listings, lines 156 to 161 and 167 to 172, differ in the mask and in the
  warning only.
\<close>

definition listing ::
  "nat \<Rightarrow> (job \<Rightarrow> bool) \<Rightarrow> str \<Rightarrow> heap \<Rightarrow> (error + element list) \<times> heap" where
  "listing df keep none_found h =
     (case mask_rows df keep h of
        Inl e \<Rightarrow> (Inl e, h)
      | Inr (masked, h1) \<Rightarrow>
     (case select_job_columns masked h1 of
        Inl e \<Rightarrow> (Inl e, h1)
      | Inr (jobs, h2) \<Rightarrow>
     (case load jobs h2 of
        Inl e \<Rightarrow> (Inl e, h2)
      | Inr f \<Rightarrow>
        if \<not> frame_empty f then
          (case assign_formatted_salary jobs (ustr ''Mid-Level'') h2 of
             Inl e \<Rightarrow> (Inl e, h2)
           | Inr h3 \<Rightarrow>
          (case reset_index jobs h3 of
             Inl e \<Rightarrow> (Inl e, h3)
           | Inr (shown, h4) \<Rightarrow>
          (case load shown h4 of
             Inl e \<Rightarrow> (Inl e, h4)
           | Inr table \<Rightarrow> (Inr [Dataframe table], h4))))
        else (Inr [Warning none_found], h2))))"

text \<open>
  \<open>country_select\<close> is the value of the select box: one of the countries of the frame,
  or \<open>None\<close> when the frame has no rows.
\<close>

definition filter_by_country ::
  "nat \<Rightarrow> str option \<Rightarrow> heap \<Rightarrow> (error + element list) \<times> heap" where
  "filter_by_country df country_select h =
     listing df (\<lambda>j. Some (country j) = country_select)
       (ustr ''No jobs found for this country.'') h"

text \<open>
  \<open>str.contains("remote", case=False, na=False)\<close>: a search without regard to case; a
  missing title does not match. The letters of \<open>remote\<close> have no caseless variant outside
  ASCII, so the search is the one for \<open>remote\<close> in the lowered title.
\<close>

definition contains_remote :: "job \<Rightarrow> bool" where
  "contains_remote j =
     (case title j of Text t \<Rightarrow> str_in (ustr ''remote'') (lower t) | _ \<Rightarrow> False)"

definition remote_jobs :: "nat \<Rightarrow> heap \<Rightarrow> (error + element list) \<times> heap" where
  "remote_jobs df h =
     listing df contains_remote (ustr ''No remote job listings found.'') h"

text \<open>Lines 180 to 189.\<close>

definition skill_gap_analyzer ::
  "library \<Rightarrow> nat \<Rightarrow> str \<Rightarrow> heap \<Rightarrow> (error + element list) \<times> heap" where
  "skill_gap_analyzer lib df skills_input h =
     (if skills_input \<noteq> [] then
        (case load_jobs df h of
           Inl e \<Rightarrow> (Inl e, h)
         | Inr corpus \<Rightarrow>
        (case similarity lib skills_input corpus of
           Inl e \<Rightarrow> (Inl e, h)
         | Inr sim \<Rightarrow>
        (case iloc df (top_idx 3 (argsort lib sim)) h of
           Inl e \<Rightarrow> (Inl e, h)
         | Inr (picked, h1) \<Rightarrow>
        (case select_match_columns picked h1 of
           Inl e \<Rightarrow> (Inl e, h1)
         | Inr (matched_jobs, h2) \<Rightarrow>
        (case reset_index matched_jobs h2 of
           Inl e \<Rightarrow> (Inl e, h2)
         | Inr (shown, h3) \<Rightarrow>
        (case load shown h3 of
           Inl e \<Rightarrow> (Inl e, h3)
         | Inr table \<Rightarrow> (Inr [Matched_Roles table], h3)))))))
      else (Inr [Info (ustr
        ''Enter your skills (e.g., Python, Excel, Machine Learning) to analyze skill fit and missing gaps.'')], h))"

text \<open>\<open>str.strip()\<close> removes the white space of Unicode at both ends.\<close>

definition is_space :: "nat \<Rightarrow> bool" where
  "is_space c = ((9 \<le> c \<and> c \<le> 13) \<or> (28 \<le> c \<and> c \<le> 32) \<or> c = 133 \<or> c = 160
     \<or> c = 5760 \<or> (8192 \<le> c \<and> c \<le> 8202) \<or> c = 8232 \<or> c = 8233 \<or> c = 8239
     \<or> c = 8287 \<or> c = 12288)"

definition strip :: "str \<Rightarrow> str" where
  "strip s = rev (dropWhile is_space (rev (dropWhile is_space s)))"

text \<open>
  Lines 198 to 218. \<open>pressed\<close> is the value of the button. \<open>df.iloc[i]\<close> with one
  position reads the row and builds no frame.
\<close>

definition resume_feedback ::
  "library \<Rightarrow> nat \<Rightarrow> str \<Rightarrow> str \<Rightarrow> bool \<Rightarrow> heap \<Rightarrow> (error + element list) \<times> heap" where
  "resume_feedback lib df experience_level resume_text pressed h =
     (if pressed then
        (if strip resume_text \<noteq> [] then
           (case load_jobs df h of
              Inl e \<Rightarrow> (Inl e, h)
            | Inr corpus \<Rightarrow>
           (case similarity lib resume_text corpus of
              Inl e \<Rightarrow> (Inl e, h)
            | Inr sim \<Rightarrow>
           (case argmax sim of
              Inl e \<Rightarrow> (Inl e, h)
            | Inr best_match_idx \<Rightarrow>
              if best_match_idx < length corpus then
                (let best_job = corpus ! best_match_idx;
                     salary_display = format_salary (avg_hourly_rate best_job)
                                        (country best_job) experience_level
                 in (Inr [Resume_Match (title best_job) salary_display (country best_job)
                            (job_type best_job)], h))
              else (Inl IndexError, h))))
         else (Inr [Warning (ustr ''Please paste your resume text before analysis.'')], h))
      else (Inr [], h))"

section \<open>Sample data\<close>

text \<open>
  A small frame, a score that looks for the word \<open>data\<close> in the query and in the title,
  and a library with a stable argsort, for running the page on concrete input.
\<close>

definition sample_jobs :: "job list" where
  "sample_jobs =
     [\<lparr>title = Text (ustr ''Data Analyst''), avg_hourly_rate = Finite 2000,
       country = ustr ''India'', job_type = Some (ustr ''Contract'')\<rparr>,
      \<lparr>title = Text (ustr ''Remote Data Engineer''), avg_hourly_rate = Finite 150000,
       country = ustr ''United States'', job_type = Some (ustr ''Work From Home'')\<rparr>,
      \<lparr>title = PyNaN, avg_hourly_rate = Finite 0,
       country = ustr ''Unknown'', job_type = None\<rparr>]"

definition sample_score :: "str \<Rightarrow> str \<Rightarrow> real" where
  "sample_score query t =
     (if str_in (ustr ''data'') (lower query) \<and> str_in (ustr ''data'') (lower t) then 1 else 0)"

text \<open>
  Two ways a version of pandas treats a missing title: converted to the text \<open>None\<close> or
  \<open>nan\<close>, or kept missing and rejected by the vectorizer.
\<close>

fun text_of_missing :: "cell \<Rightarrow> error + str" where
  "text_of_missing (Text s) = Inr s"
| "text_of_missing PyNone = Inr (ustr ''None'')"
| "text_of_missing PyNaN = Inr (ustr ''nan'')"

definition invalid_document :: "cell \<Rightarrow> error + str" where
  "invalid_document c = Inl ValueError"

definition sample_library :: library where
  "sample_library =
     \<lparr>score = sample_score, argsort = argsort_stable, missing_text = text_of_missing\<rparr>"

definition strict_library :: library where
  "strict_library =
     \<lparr>score = sample_score, argsort = argsort_stable, missing_text = invalid_document\<rparr>"

text \<open>A frame whose first title does not match the word, and whose other two do.\<close>

definition titled_jobs :: "job list" where
  "titled_jobs =
     [\<lparr>title = Text (ustr ''Nurse''), avg_hourly_rate = Finite 0,
       country = ustr ''Unknown'', job_type = None\<rparr>,
      \<lparr>title = Text (ustr ''Data Analyst''), avg_hourly_rate = Finite 2000,
       country = ustr ''India'', job_type = Some (ustr ''Contract'')\<rparr>,
      \<lparr>title = Text (ustr ''Remote Data Engineer''), avg_hourly_rate = Finite 150000,
       country = ustr ''United States'', job_type = Some (ustr ''Work From Home'')\<rparr>]"

text \<open>A pickled frame with a row whose rate, country and job type are all missing.\<close>

definition sample_raw :: raw_frame where
  "sample_raw =
     \<lparr>has_job_type = True,
      raw_rows =
        [\<lparr>label = 0, raw_title = Text (ustr ''Data Analyst''), raw_rate = Finite 2000,
          raw_country = Some (ustr ''India''), raw_job_type = Some (ustr ''Contract'')\<rparr>,
         \<lparr>label = 1, raw_title = Text (ustr ''Nurse''), raw_rate = NaN,
          raw_country = None, raw_job_type = None\<rparr>]\<rparr>"

section \<open>Properties of the arithmetic\<close>

subsection \<open>Exponents and rounding\<close>

lemma bit_length_bounds: "0 < n \<Longrightarrow> 2 ^ (bit_length n - 1) \<le> n \<and> n < 2 ^ bit_length n"
proof (induction n rule: bit_length.induct)
  case (1 n)
  show ?case
  proof (cases "n div 2 = 0")
    case True
    with "1.prems" have "n = 1" by presburger
    then show ?thesis by simp
  next
    case False
    then have pos: "0 < n div 2" by simp
    from "1.IH" "1.prems" pos
    have ih: "2 ^ (bit_length (n div 2) - 1) \<le> n div 2" "n div 2 < 2 ^ bit_length (n div 2)"
      by auto
    have bl: "bit_length n = Suc (bit_length (n div 2))" using "1.prems" by simp
    have blpos: "0 < bit_length (n div 2)" using pos by simp
    then obtain k where k: "bit_length (n div 2) = Suc k" by (cases "bit_length (n div 2)") auto
    have "2 * 2 ^ k \<le> 2 * (n div 2)" using ih(1) k by simp
    also have "\<dots> \<le> n" by presburger
    finally have lo: "2 ^ (bit_length n - 1) \<le> n" using bl k by simp
    have "n < 2 * (n div 2) + 2" by presburger
    also have "\<dots> \<le> 2 * 2 ^ bit_length (n div 2)" using ih(2) by simp
    finally have hi: "n < 2 ^ bit_length n" using bl by simp
    from lo hi show ?thesis by simp
  qed
qed

lemma pow2_nat: "pow2 (int n) = 2 ^ n"
  by (simp add: pow2_def)

lemma pow2_neg: "pow2 (- int n) = 1 / 2 ^ n"
  by (simp add: pow2_def)

lemma pow2_powi: "pow2 k = 2 powi k"
  by (simp add: pow2_def power_int_def inverse_eq_divide power_one_over)

lemma pow2_pos: "0 < pow2 k"
  by (simp add: pow2_powi)

lemma pow2_strict_mono: "a < b \<Longrightarrow> pow2 a < pow2 b"
  by (simp add: pow2_powi power_int_strict_increasing)

lemma pow2_less_cancel: "pow2 a < pow2 b \<Longrightarrow> a < b"
  by (metis pow2_strict_mono less_asym linorder_neqE_linordered_idom)

lemma ilog2_bounds:
  assumes "0 < q"
  shows "pow2 (ilog2 q) \<le> q \<and> q < pow2 (ilog2 q + 1)"
proof (cases "1 \<le> q")
  case True
  define n where "n = nat \<lfloor>q\<rfloor>"
  define b where "b = bit_length n"
  have fl: "1 \<le> \<lfloor>q\<rfloor>" using True by (simp add: le_floor_iff)
  then have npos: "0 < n" by (simp add: n_def)
  have n_le: "of_nat n \<le> q" using fl by (simp add: n_def of_nat_nat)
  have q_lt: "q < of_nat n + 1"
  proof -
    have "q < of_int \<lfloor>q\<rfloor> + 1" by linarith
    then show ?thesis using fl by (simp add: n_def)
  qed
  from bit_length_bounds [OF npos]
  have bb: "2 ^ (b - 1) \<le> n" "n < 2 ^ b" by (simp_all add: b_def)
  have bpos: "0 < b" using npos by (simp add: b_def)
  have e: "ilog2 q = int (b - 1)" using True bpos by (simp add: ilog2_def n_def b_def)
  have e1: "ilog2 q + 1 = int b" using e bpos by simp
  have "(2::rat) ^ (b - 1) \<le> of_nat n" using bb(1) by (metis of_nat_le_iff of_nat_numeral of_nat_power)
  then have "2 ^ (b - 1) \<le> q" using n_le by (rule order_trans)
  then have lo: "pow2 (ilog2 q) \<le> q" by (simp only: e pow2_nat)
  have "n + 1 \<le> 2 ^ b" using bb(2) by simp
  then have "(of_nat (n + 1) :: rat) \<le> of_nat (2 ^ b)" by (simp only: of_nat_le_iff)
  then have "(of_nat n :: rat) + 1 \<le> 2 ^ b" by simp
  then have hi: "q < pow2 (ilog2 q + 1)" using q_lt by (simp add: e1 pow2_nat)
  from lo hi show ?thesis ..
next
  case False
  define r where "r = 1 / q"
  define m where "m = nat (\<lceil>r\<rceil> - 1)"
  define b where "b = bit_length m"
  have r1: "1 < r" using assms False by (simp add: r_def)
  then have c2: "2 \<le> \<lceil>r\<rceil>" by (simp add: le_ceiling_iff) 
  then have mpos: "0 < m" by (simp add: m_def)
  have m_lt: "of_nat m < r"
  proof -
    have "of_int (\<lceil>r\<rceil> - 1) < r" by linarith
    then show ?thesis using c2 by (simp add: m_def)
  qed
  have r_le: "r \<le> of_nat m + 1"
  proof -
    have "r \<le> of_int \<lceil>r\<rceil>" by linarith
    then show ?thesis using c2 by (simp add: m_def)
  qed
  from bit_length_bounds [OF mpos]
  have bb: "2 ^ (b - 1) \<le> m" "m < 2 ^ b" by (simp_all add: b_def)
  have bpos: "0 < b" using mpos by (simp add: b_def)
  have e: "ilog2 q = - int b" using False by (simp add: ilog2_def m_def b_def r_def)
  have e1: "ilog2 q + 1 = - int (b - 1)" using e bpos by simp
  have q_eq: "q = 1 / r" by (simp add: r_def)
  have rpos: "0 < r" using r1 by simp
  have "m + 1 \<le> 2 ^ b" using bb(2) by simp
  then have "(of_nat (m + 1) :: rat) \<le> of_nat (2 ^ b)" by (simp only: of_nat_le_iff)
  then have "r \<le> 2 ^ b" using r_le by simp
  then have "1 / 2 ^ b \<le> 1 / r" using rpos by (simp add: frac_le)
  moreover have "pow2 (ilog2 q) = 1 / 2 ^ b" by (simp only: e pow2_neg)
  ultimately have lo: "pow2 (ilog2 q) \<le> q" using q_eq by simp
  have "(2::rat) ^ (b - 1) \<le> of_nat m" using bb(1) by (metis of_nat_le_iff of_nat_numeral of_nat_power)
  then have "2 ^ (b - 1) < r" using m_lt by (rule le_less_trans)
  then have "1 / r < 1 / 2 ^ (b - 1)" by (simp add: frac_less2)
  moreover have "pow2 (ilog2 q + 1) = 1 / 2 ^ (b - 1)" by (simp only: e1 pow2_neg)
  ultimately have hi: "q < pow2 (ilog2 q + 1)" using q_eq by simp
  from lo hi show ?thesis ..
qed

lemma ilog2_eqI:
  assumes "pow2 e \<le> q" "q < pow2 (e + 1)"
  shows "ilog2 q = e"
proof -
  have qpos: "0 < q" using assms(1) pow2_pos [of e] by simp
  from ilog2_bounds [OF qpos]
  have b: "pow2 (ilog2 q) \<le> q" "q < pow2 (ilog2 q + 1)" by simp_all
  have "pow2 e < pow2 (ilog2 q + 1)" using assms(1) b(2) by simp
  then have 1: "e < ilog2 q + 1" by (rule pow2_less_cancel)
  have "pow2 (ilog2 q) < pow2 (e + 1)" using assms(2) b(1) by simp
  then have 2: "ilog2 q < e + 1" by (rule pow2_less_cancel)
  from 1 2 show ?thesis by simp
qed

lemma round_half_even_eqI:
  assumes "\<bar>x - of_int n\<bar> < 1 / 2"
  shows "round_half_even x = n"
proof (cases "of_int n \<le> x")
  case True
  then have "\<lfloor>x\<rfloor> = n" using assms by (intro floor_unique) auto
  then show ?thesis using assms True by (simp add: round_half_even_def Let_def)
next
  case False
  then have f: "\<lfloor>x\<rfloor> = n - 1" using assms by (intro floor_unique) auto
  then show ?thesis using assms False by (simp add: round_half_even_def Let_def)
qed

lemma round_half_even_of_int: "round_half_even (of_int n) = n"
  by (rule round_half_even_eqI) simp

lemma round_half_even_tie:
  assumes "x = of_int n + 1 / 2"
  shows "round_half_even x = (if even n then n else n + 1)"
proof -
  have "\<lfloor>x\<rfloor> = n" using assms by (intro floor_unique) auto
  then show ?thesis using assms by (simp add: round_half_even_def Let_def)
qed

lemma round64_eqI:
  assumes "pow2 e \<le> q" "q < pow2 (e + 1)" "- 1022 \<le> e"
    and "\<bar>q / pow2 (e - 52) - of_int n\<bar> < 1 / 2"
  shows "round64 q = of_int n * pow2 (e - 52)"
proof -
  have qpos: "0 < q" using assms(1) pow2_pos [of e] by simp
  have "ilog2 q = e" using assms(1,2) by (rule ilog2_eqI)
  moreover have "round_half_even (q / pow2 (e - 52)) = n"
    using assms(4) by (rule round_half_even_eqI)
  ultimately show ?thesis using qpos assms(3) by (simp add: round64_def Let_def max_def)
qed


lemma round64_exactI:
  assumes "pow2 e \<le> q" "q < pow2 (e + 1)" "- 1022 \<le> e"
    and "q / pow2 (e - 52) = of_int n"
  shows "round64 q = q"
proof -
  have "\<bar>q / pow2 (e - 52) - of_int n\<bar> < 1 / 2" using assms(4) by simp
  with assms(1-3) have "round64 q = of_int n * pow2 (e - 52)" by (rule round64_eqI)
  also have "\<dots> = q" using assms(4) pow2_pos [of "e - 52"] by (simp add: field_simps)
  finally show ?thesis .
qed

lemma round64_0: "round64 0 = 0"
  by (simp add: round64_def)

lemma pow2_1024_pos: "\<not> pow2 1024 \<le> 0"
  using pow2_pos [of 1024] by simp

lemma lit_0: "lit 0 = Finite 0"
  by (simp add: lit_def mk_float_def round64_0 pow2_1024_pos)

lemma mk_float_exact:
  assumes "round64 q = q" "0 < q" "q < pow2 1024"
  shows "mk_float False q = Finite q"
  using assms by (simp add: mk_float_def)

lemma lit_1: "lit 1 = Finite 1"
proof -
  have "round64 1 = 1"
    by (rule round64_exactI [where e = 0 and n = "2 ^ 52"]) (simp_all add: pow2_def)
  then show ?thesis by (simp add: lit_def mk_float_exact pow2_def)
qed

lemma lit_3_2: "lit (3 / 2) = Finite (3 / 2)"
proof -
  have "round64 (3 / 2) = 3 / 2"
    by (rule round64_exactI [where e = 0 and n = "3 * 2 ^ 51"]) (simp_all add: pow2_def)
  then show ?thesis by (simp add: lit_def mk_float_exact pow2_def)
qed

lemma lit_1000: "lit 1000 = Finite 1000"
proof -
  have "round64 1000 = 1000"
    by (rule round64_exactI [where e = 9 and n = "1000 * 2 ^ 43"]) (simp_all add: pow2_def)
  then show ?thesis by (simp add: lit_def mk_float_exact pow2_def)
qed

lemma lit_100000: "lit 100000 = Finite 100000"
proof -
  have "round64 100000 = 100000"
    by (rule round64_exactI [where e = 16 and n = "100000 * 2 ^ 36"]) (simp_all add: pow2_def)
  then show ?thesis by (simp add: lit_def mk_float_exact pow2_def)
qed

lemma lit_4_5: "lit (4 / 5) = Finite (3602879701896397 / 4503599627370496)"
proof -
  have "round64 (4 / 5) = of_int 7205759403792794 * pow2 (- 1 - 52)"
    by (rule round64_eqI) (simp_all add: pow2_def)
  then show ?thesis by (simp add: lit_def mk_float_def pow2_def)
qed

lemma lit_6_5: "lit (6 / 5) = Finite (5404319552844595 / 4503599627370496)"
proof -
  have "round64 (6 / 5) = of_int 5404319552844595 * pow2 (0 - 52)"
    by (rule round64_eqI) (simp_all add: pow2_def)
  then show ?thesis by (simp add: lit_def mk_float_def pow2_def)
qed

lemmas lit_simps = lit_0 lit_1 lit_3_2 lit_4_5 lit_6_5 lit_1000 lit_100000

lemma digits_small: "n < 10 \<Longrightarrow> digits n = [48 + n]"
  by simp

lemma digits_large: "10 \<le> n \<Longrightarrow> digits n = digits (n div 10) @ [48 + n mod 10]"
  by simp

declare digits.simps [simp del]

lemma ustr_Nil: "ustr [] = []"
  by (simp add: ustr_def)

lemma ustr_Cons: "ustr (c # cs) = of_char c # ustr cs"
  by (simp add: ustr_def)


subsection \<open>Evaluating the formatter\<close>

lemma multiplier_mid:
  "multiplier (ustr ''Mid-Level'') = Finite (5404319552844595 / 4503599627370496)"
  by (simp add: multiplier_def ustr_Cons ustr_Nil lit_simps)

lemma adjusted_120000_mid: "adjusted (Finite 120000) (ustr ''Mid-Level'') = Finite 144000"
proof -
  have "round64 (120000 * (5404319552844595 / 4503599627370496))
        = of_int 4947802324992000 * pow2 (17 - 52)"
    by (rule round64_eqI) (simp_all add: pow2_def)
  then show ?thesis by (simp add: adjusted_def multiplier_mid fmul_def mk_float_def pow2_def)
qed

lemma india_in_India: "str_in (ustr ''india'') (lower (ustr ''India''))"
  by (simp add: ustr_Cons ustr_Nil lower_def lower_cp_def)

lemma fixed_eqI:
  assumes "\<bar>q * 10 ^ n - of_int (int k)\<bar> < 1 / 2"
  shows "fixed n q = digits (k div 10 ^ n) @ ustr ''.'' @ zfill n (digits (k mod 10 ^ n))"
proof -
  have "round_half_even (q * 10 ^ n) = int k" using assms by (rule round_half_even_eqI)
  then show ?thesis by (simp add: fixed_def)
qed

lemma fdiv_144000:
  "fdiv (Finite 144000) (Finite 100000) = Finite (6485183463413514 / 4503599627370496)"
proof -
  have "round64 (144000 / 100000) = of_int 6485183463413514 * pow2 (0 - 52)"
    by (rule round64_eqI) (simp_all add: pow2_def)
  then show ?thesis by (simp add: fdiv_def is_zero_def mk_float_def pow2_def)
qed

lemma format_1_44: "format_f 1 (fdiv (Finite 144000) (Finite 100000)) = ustr ''1.4''"
proof -
  have "fixed 1 (6485183463413514 / 4503599627370496)
        = digits (14 div 10 ^ 1) @ ustr ''.'' @ zfill 1 (digits (14 mod 10 ^ 1))"
    by (rule fixed_eqI) simp
  then have "format_f 1 (Finite (6485183463413514 / 4503599627370496)) = ustr ''1.4''"
    by (simp add: digits_small zfill_def ustr_Cons ustr_Nil)
  then show ?thesis by (simp only: fdiv_144000)
qed

lemma format_salary_120000_mid:
  "format_salary (Finite 120000) (ustr ''India'') (ustr ''Mid-Level'') = rupee @ ustr ''1.4 Lakh''"
proof -
  have "format_salary (Finite 120000) (ustr ''India'') (ustr ''Mid-Level'')
        = rupee @ format_f 1 (fdiv (Finite 144000) (Finite 100000)) @ ustr '' Lakh''"
    by (simp add: format_salary_def render_def adjusted_120000_mid india_in_India lit_simps fge_def)
  then show ?thesis by (simp only: format_1_44) (simp add: ustr_def)
qed

lemma adjusted_150000_senior: "adjusted (Finite 150000) (ustr ''Senior'') = Finite 225000"
proof -
  have "round64 (150000 * (3 / 2)) = of_int (225000 * 2 ^ 35) * pow2 (17 - 52)"
    by (rule round64_eqI) (simp_all add: pow2_def)
  then show ?thesis
    by (simp add: adjusted_def multiplier_def ustr_Cons ustr_Nil lit_simps fmul_def
        mk_float_def pow2_def)
qed

lemma fdiv_225000: "fdiv (Finite 225000) (Finite 100000) = Finite (9 / 4)"
proof -
  have "round64 (225000 / 100000) = of_int (9 * 2 ^ 49) * pow2 (1 - 52)"
    by (rule round64_eqI) (simp_all add: pow2_def)
  then show ?thesis by (simp add: fdiv_def is_zero_def mk_float_def pow2_def)
qed

lemma format_2_25: "format_f 1 (fdiv (Finite 225000) (Finite 100000)) = ustr ''2.2''"
proof -
  have "round_half_even (9 / 4 * 10 ^ 1) = (if even (22::int) then 22 else 22 + 1)"
    by (rule round_half_even_tie) simp
  then have "format_f 1 (Finite (9 / 4)) = ustr ''2.2''"
    by (simp add: fixed_def digits_small zfill_def ustr_Cons ustr_Nil)
  then show ?thesis by (simp only: fdiv_225000)
qed

lemma format_salary_150000_senior:
  "format_salary (Finite 150000) (ustr ''United States'') (ustr ''Senior'') = ustr ''$2.2K''"
proof -
  have "\<not> str_in (ustr ''india'') (lower (ustr ''United States''))"
    by (simp add: ustr_Cons ustr_Nil lower_def lower_cp_def)
  then have "format_salary (Finite 150000) (ustr ''United States'') (ustr ''Senior'')
        = ustr ''$'' @ format_f 1 (fdiv (Finite 225000) (Finite 100000)) @ ustr ''K''"
    by (simp add: format_salary_def render_def adjusted_150000_senior lit_simps fge_def)
  then show ?thesis by (simp only: format_2_25) (simp add: ustr_def)
qed

lemma adjusted_0_fresher: "adjusted (lit 0) (ustr ''Fresher'') = Finite 0"
  by (simp add: adjusted_def multiplier_def lit_simps fmul_def mk_float_def round64_0
      pow2_1024_pos)

lemma format_2_zero: "format_f 2 (Finite 0) = ustr ''0.00''"
proof -
  have "fixed 2 0 = digits (0 div 10 ^ 2) @ ustr ''.'' @ zfill 2 (digits (0 mod 10 ^ 2))"
    by (rule fixed_eqI) simp
  then show ?thesis by (simp add: digits_small zfill_def ustr_Cons ustr_Nil)
qed

lemma format_salary_0_fresher:
  "format_salary (lit 0) (ustr ''India'') (ustr ''Fresher'') = rupee @ ustr ''0.00/hr''"
proof -
  have "format_salary (lit 0) (ustr ''India'') (ustr ''Fresher'')
        = rupee @ format_f 2 (Finite 0) @ ustr ''/hr''"
    by (simp add: format_salary_def render_def adjusted_0_fresher india_in_India lit_1000
        lit_100000 fge_def)
  then show ?thesis by (simp only: format_2_zero) (simp add: ustr_def)
qed

lemma adjusted_2000_senior: "adjusted (Finite 2000) (ustr ''Senior'') = Finite 3000"
proof -
  have "round64 (2000 * (3 / 2)) = of_int (3000 * 2 ^ 41) * pow2 (11 - 52)"
    by (rule round64_eqI) (simp_all add: pow2_def)
  then show ?thesis
    by (simp add: adjusted_def multiplier_def ustr_Cons ustr_Nil lit_simps fmul_def
        mk_float_def pow2_def)
qed

lemma fdiv_3000: "fdiv (Finite 3000) (Finite 1000) = Finite 3"
proof -
  have "round64 (3000 / 1000) = of_int (3 * 2 ^ 51) * pow2 (1 - 52)"
    by (rule round64_eqI) (simp_all add: pow2_def)
  then show ?thesis by (simp add: fdiv_def is_zero_def mk_float_def pow2_def)
qed

lemma format_1_three: "format_f 1 (Finite 3) = ustr ''3.0''"
proof -
  have "fixed 1 3 = digits (30 div 10 ^ 1) @ ustr ''.'' @ zfill 1 (digits (30 mod 10 ^ 1))"
    by (rule fixed_eqI) simp
  then show ?thesis by (simp add: digits_small zfill_def ustr_Cons ustr_Nil)
qed

lemma format_salary_2000_senior:
  "format_salary (Finite 2000) (ustr ''India'') (ustr ''Senior'') = rupee @ ustr ''3.0 Thousand''"
proof -
  have "format_salary (Finite 2000) (ustr ''India'') (ustr ''Senior'')
        = rupee @ format_f 1 (fdiv (Finite 3000) (Finite 1000)) @ ustr '' Thousand''"
    by (simp add: format_salary_def render_def adjusted_2000_senior india_in_India lit_simps
        fge_def)
  then show ?thesis by (simp only: fdiv_3000 format_1_three) (simp add: ustr_def)
qed

lemma adjusted_100_fresher: "adjusted (Finite 100) (ustr ''Fresher'') = Finite 80"
proof -
  have "round64 (100 * (3602879701896397 / 4503599627370496)) = of_int 5629499534213120 * pow2 (6 - 52)"
    by (rule round64_eqI) (simp_all add: pow2_def)
  then show ?thesis
    by (simp add: adjusted_def multiplier_def ustr_Cons ustr_Nil lit_simps fmul_def
        mk_float_def pow2_def)
qed

lemma format_rate_100_fresher: "format_f 2 (Finite 80) = ustr ''80.00''"
proof -
  have "fixed 2 80
        = digits (8000 div 10 ^ 2) @ ustr ''.'' @ zfill 2 (digits (8000 mod 10 ^ 2))"
    by (rule fixed_eqI) simp
  then show ?thesis by (simp add: digits_small digits_large zfill_def ustr_Cons ustr_Nil)
qed

lemma format_salary_100_peru_fresher:
  "format_salary (Finite 100) (ustr ''Peru'') (ustr ''Fresher'') = ustr ''$80.00/hr''"
proof -
  have "\<not> str_in (ustr ''india'') (lower (ustr ''Peru''))"
    by (simp add: ustr_Cons ustr_Nil lower_def lower_cp_def)
  then have "format_salary (Finite 100) (ustr ''Peru'') (ustr ''Fresher'')
        = ustr ''$'' @ format_f 2 (Finite 80) @ ustr ''/hr''"
    by (simp add: format_salary_def render_def adjusted_100_fresher lit_simps fge_def)
  then show ?thesis by (simp only: format_rate_100_fresher) (simp add: ustr_def)
qed

lemma adjusted_100_senior: "adjusted (Finite 100) (ustr ''Senior'') = Finite 150"
proof -
  have "round64 (100 * (3 / 2)) = of_int 5277655813324800 * pow2 (7 - 52)"
    by (rule round64_eqI) (simp_all add: pow2_def)
  then show ?thesis
    by (simp add: adjusted_def multiplier_def ustr_Cons ustr_Nil lit_simps fmul_def
        mk_float_def pow2_def)
qed

lemma format_rate_100_senior: "format_f 2 (Finite 150) = ustr ''150.00''"
proof -
  have "fixed 2 150
        = digits (15000 div 10 ^ 2) @ ustr ''.'' @ zfill 2 (digits (15000 mod 10 ^ 2))"
    by (rule fixed_eqI) simp
  then show ?thesis by (simp add: digits_small digits_large zfill_def ustr_Cons ustr_Nil)
qed

lemma format_salary_100_peru_senior:
  "format_salary (Finite 100) (ustr ''Peru'') (ustr ''Senior'') = ustr ''$150.00/hr''"
proof -
  have "\<not> str_in (ustr ''india'') (lower (ustr ''Peru''))"
    by (simp add: ustr_Cons ustr_Nil lower_def lower_cp_def)
  then have "format_salary (Finite 100) (ustr ''Peru'') (ustr ''Senior'')
        = ustr ''$'' @ format_f 2 (Finite 150) @ ustr ''/hr''"
    by (simp add: format_salary_def render_def adjusted_100_senior lit_simps fge_def)
  then show ?thesis by (simp only: format_rate_100_senior) (simp add: ustr_def)
qed

lemma adjusted_100_intern: "adjusted (Finite 100) (ustr ''Intern'') = Finite 100"
proof -
  have "round64 (100 * 1) = of_int 7036874417766400 * pow2 (6 - 52)"
    by (rule round64_eqI) (simp_all add: pow2_def)
  then show ?thesis
    by (simp add: adjusted_def multiplier_def ustr_Cons ustr_Nil lit_simps fmul_def
        mk_float_def pow2_def)
qed

lemma format_rate_100_intern: "format_f 2 (Finite 100) = ustr ''100.00''"
proof -
  have "fixed 2 100
        = digits (10000 div 10 ^ 2) @ ustr ''.'' @ zfill 2 (digits (10000 mod 10 ^ 2))"
    by (rule fixed_eqI) simp
  then show ?thesis by (simp add: digits_small digits_large zfill_def ustr_Cons ustr_Nil)
qed

lemma format_salary_100_peru_intern:
  "format_salary (Finite 100) (ustr ''Peru'') (ustr ''Intern'') = ustr ''$100.00/hr''"
proof -
  have "\<not> str_in (ustr ''india'') (lower (ustr ''Peru''))"
    by (simp add: ustr_Cons ustr_Nil lower_def lower_cp_def)
  then have "format_salary (Finite 100) (ustr ''Peru'') (ustr ''Intern'')
        = ustr ''$'' @ format_f 2 (Finite 100) @ ustr ''/hr''"
    by (simp add: format_salary_def render_def adjusted_100_intern lit_simps fge_def)
  then show ?thesis by (simp only: format_rate_100_intern) (simp add: ustr_def)
qed

lemma adjusted_123456_senior: "adjusted (Finite 123456) (ustr ''Senior'') = Finite 185184"
proof -
  have "round64 (123456 * (3 / 2)) = of_int 6362873789939712 * pow2 (17 - 52)"
    by (rule round64_eqI) (simp_all add: pow2_def)
  then show ?thesis
    by (simp add: adjusted_def multiplier_def ustr_Cons ustr_Nil lit_simps fmul_def
        mk_float_def pow2_def)
qed

lemma quotient_123456_senior: "fdiv (Finite 185184) (Finite 100000) = Finite (8339945933949779 / 4503599627370496)"
proof -
  have "round64 (185184 / 100000) = of_int 8339945933949779 * pow2 (0 - 52)"
    by (rule round64_eqI) (simp_all add: pow2_def)
  then show ?thesis by (simp add: fdiv_def is_zero_def mk_float_def pow2_def)
qed

lemma format_quotient_123456_senior: "format_f 1 (fdiv (Finite 185184) (Finite 100000)) = ustr ''1.9''"
proof -
  have "fixed 1 (8339945933949779 / 4503599627370496)
        = digits (19 div 10 ^ 1) @ ustr ''.'' @ zfill 1 (digits (19 mod 10 ^ 1))"
    by (rule fixed_eqI) simp
  then have "format_f 1 (Finite (8339945933949779 / 4503599627370496)) = ustr ''1.9''"
    by (simp add: digits_small digits_large zfill_def ustr_Cons ustr_Nil)
  then show ?thesis by (simp only: quotient_123456_senior)
qed

lemma format_salary_123456_india_senior:
  "format_salary (Finite 123456) (ustr ''India'') (ustr ''Senior'') = rupee @ ustr ''1.9 Lakh''"
proof -
  have "str_in (ustr ''india'') (lower (ustr ''India''))"
    by (simp add: ustr_Cons ustr_Nil lower_def lower_cp_def)
  then have "format_salary (Finite 123456) (ustr ''India'') (ustr ''Senior'')
        = rupee @ format_f 1 (fdiv (Finite 185184) (Finite 100000)) @ ustr '' Lakh''"
    by (simp add: format_salary_def render_def adjusted_123456_senior lit_simps fge_def)
  then show ?thesis by (simp only: format_quotient_123456_senior) (simp add: ustr_def)
qed

lemma format_salary_123456_us_senior:
  "format_salary (Finite 123456) (ustr ''United States'') (ustr ''Senior'') = ustr ''$1.9K''"
proof -
  have "\<not> str_in (ustr ''india'') (lower (ustr ''United States''))"
    by (simp add: ustr_Cons ustr_Nil lower_def lower_cp_def)
  then have "format_salary (Finite 123456) (ustr ''United States'') (ustr ''Senior'')
        = ustr ''$'' @ format_f 1 (fdiv (Finite 185184) (Finite 100000)) @ ustr ''K''"
    by (simp add: format_salary_def render_def adjusted_123456_senior lit_simps fge_def)
  then show ?thesis by (simp only: format_quotient_123456_senior) (simp add: ustr_def)
qed

lemma adjusted_4321_fresher: "adjusted (Finite 4321) (ustr ''Fresher'') = Finite (3800791794896077 / 1099511627776)"
proof -
  have "round64 (4321 * (3602879701896397 / 4503599627370496)) = of_int 7601583589792154 * pow2 (11 - 52)"
    by (rule round64_eqI) (simp_all add: pow2_def)
  then show ?thesis
    by (simp add: adjusted_def multiplier_def ustr_Cons ustr_Nil lit_simps fmul_def
        mk_float_def pow2_def)
qed

lemma quotient_4321_fresher: "fdiv (Finite (3800791794896077 / 1099511627776)) (Finite 1000) = Finite (3892010797973583 / 1125899906842624)"
proof -
  have "round64 ((3800791794896077 / 1099511627776) / 1000) = of_int 7784021595947166 * pow2 (1 - 52)"
    by (rule round64_eqI) (simp_all add: pow2_def)
  then show ?thesis by (simp add: fdiv_def is_zero_def mk_float_def pow2_def)
qed

lemma format_quotient_4321_fresher: "format_f 1 (fdiv (Finite (3800791794896077 / 1099511627776)) (Finite 1000)) = ustr ''3.5''"
proof -
  have "fixed 1 (3892010797973583 / 1125899906842624)
        = digits (35 div 10 ^ 1) @ ustr ''.'' @ zfill 1 (digits (35 mod 10 ^ 1))"
    by (rule fixed_eqI) simp
  then have "format_f 1 (Finite (3892010797973583 / 1125899906842624)) = ustr ''3.5''"
    by (simp add: digits_small digits_large zfill_def ustr_Cons ustr_Nil)
  then show ?thesis by (simp only: quotient_4321_fresher)
qed

lemma format_salary_4321_new_india_fresher:
  "format_salary (Finite 4321) (ustr ''New India'') (ustr ''Fresher'') = rupee @ ustr ''3.5 Thousand''"
proof -
  have "str_in (ustr ''india'') (lower (ustr ''New India''))"
    by (simp add: ustr_Cons ustr_Nil lower_def lower_cp_def)
  then have "format_salary (Finite 4321) (ustr ''New India'') (ustr ''Fresher'')
        = rupee @ format_f 1 (fdiv (Finite (3800791794896077 / 1099511627776)) (Finite 1000)) @ ustr '' Thousand''"
    by (simp add: format_salary_def render_def adjusted_4321_fresher lit_simps fge_def)
  then show ?thesis by (simp only: format_quotient_4321_fresher) (simp add: ustr_def)
qed

lemma format_salary_4321_canada_fresher:
  "format_salary (Finite 4321) (ustr ''Canada'') (ustr ''Fresher'') = ustr ''$3.5K''"
proof -
  have "\<not> str_in (ustr ''india'') (lower (ustr ''Canada''))"
    by (simp add: ustr_Cons ustr_Nil lower_def lower_cp_def)
  then have "format_salary (Finite 4321) (ustr ''Canada'') (ustr ''Fresher'')
        = ustr ''$'' @ format_f 1 (fdiv (Finite (3800791794896077 / 1099511627776)) (Finite 1000)) @ ustr ''K''"
    by (simp add: format_salary_def render_def adjusted_4321_fresher lit_simps fge_def)
  then show ?thesis by (simp only: format_quotient_4321_fresher) (simp add: ustr_def)
qed

lemma adjusted_91_2_senior: "adjusted (Finite (91 / 2)) (ustr ''Senior'') = Finite (273 / 4)"
proof -
  have "round64 ((91 / 2) * (3 / 2)) = of_int 4802666790125568 * pow2 (6 - 52)"
    by (rule round64_eqI) (simp_all add: pow2_def)
  then show ?thesis
    by (simp add: adjusted_def multiplier_def ustr_Cons ustr_Nil lit_simps fmul_def
        mk_float_def pow2_def)
qed

lemma format_rate_91_2_senior: "format_f 2 (Finite (273 / 4)) = ustr ''68.25''"
proof -
  have "fixed 2 (273 / 4)
        = digits (6825 div 10 ^ 2) @ ustr ''.'' @ zfill 2 (digits (6825 mod 10 ^ 2))"
    by (rule fixed_eqI) simp
  then show ?thesis by (simp add: digits_small digits_large zfill_def ustr_Cons ustr_Nil)
qed

lemma format_salary_91_2_india_senior:
  "format_salary (Finite (91 / 2)) (ustr ''INDIA'') (ustr ''Senior'') = rupee @ ustr ''68.25/hr''"
proof -
  have "str_in (ustr ''india'') (lower (ustr ''INDIA''))"
    by (simp add: ustr_Cons ustr_Nil lower_def lower_cp_def)
  then have "format_salary (Finite (91 / 2)) (ustr ''INDIA'') (ustr ''Senior'')
        = rupee @ format_f 2 (Finite (273 / 4)) @ ustr ''/hr''"
    by (simp add: format_salary_def render_def adjusted_91_2_senior lit_simps fge_def)
  then show ?thesis by (simp only: format_rate_91_2_senior) (simp add: ustr_def)
qed

lemma format_salary_91_2_canada_senior:
  "format_salary (Finite (91 / 2)) (ustr ''Canada'') (ustr ''Senior'') = ustr ''$68.25/hr''"
proof -
  have "\<not> str_in (ustr ''india'') (lower (ustr ''Canada''))"
    by (simp add: ustr_Cons ustr_Nil lower_def lower_cp_def)
  then have "format_salary (Finite (91 / 2)) (ustr ''Canada'') (ustr ''Senior'')
        = ustr ''$'' @ format_f 2 (Finite (273 / 4)) @ ustr ''/hr''"
    by (simp add: format_salary_def render_def adjusted_91_2_senior lit_simps fge_def)
  then show ?thesis by (simp only: format_rate_91_2_senior) (simp add: ustr_def)
qed

lemma adjusted_56789_mid: "adjusted (Finite 56789) (ustr ''Mid-Level'') = Finite (4683012437232845 / 68719476736)"
proof -
  have "round64 (56789 * (5404319552844595 / 4503599627370496)) = of_int 4683012437232845 * pow2 (16 - 52)"
    by (rule round64_eqI) (simp_all add: pow2_def)
  then show ?thesis
    by (simp add: adjusted_def multiplier_def ustr_Cons ustr_Nil lit_simps fmul_def
        mk_float_def pow2_def)
qed

lemma quotient_56789_mid: "fdiv (Finite (4683012437232845 / 68719476736)) (Finite 1000) = Finite (4795404735726433 / 70368744177664)"
proof -
  have "round64 ((4683012437232845 / 68719476736) / 1000) = of_int 4795404735726433 * pow2 (6 - 52)"
    by (rule round64_eqI) (simp_all add: pow2_def)
  then show ?thesis by (simp add: fdiv_def is_zero_def mk_float_def pow2_def)
qed

lemma format_quotient_56789_mid: "format_f 1 (fdiv (Finite (4683012437232845 / 68719476736)) (Finite 1000)) = ustr ''68.1''"
proof -
  have "fixed 1 (4795404735726433 / 70368744177664)
        = digits (681 div 10 ^ 1) @ ustr ''.'' @ zfill 1 (digits (681 mod 10 ^ 1))"
    by (rule fixed_eqI) simp
  then have "format_f 1 (Finite (4795404735726433 / 70368744177664)) = ustr ''68.1''"
    by (simp add: digits_small digits_large zfill_def ustr_Cons ustr_Nil)
  then show ?thesis by (simp only: quotient_56789_mid)
qed

lemma adjusted_7_fresher: "adjusted (Finite 7) (ustr ''Fresher'') = Finite (6305039478318695 / 1125899906842624)"
proof -
  have "round64 (7 * (3602879701896397 / 4503599627370496)) = of_int 6305039478318695 * pow2 (2 - 52)"
    by (rule round64_eqI) (simp_all add: pow2_def)
  then show ?thesis
    by (simp add: adjusted_def multiplier_def ustr_Cons ustr_Nil lit_simps fmul_def
        mk_float_def pow2_def)
qed

subsection \<open>Comparisons\<close>

lemma multiplier_cases:
  "multiplier level = Finite (3602879701896397 / 4503599627370496)
   \<or> multiplier level = Finite (5404319552844595 / 4503599627370496)
   \<or> multiplier level = Finite (3 / 2) \<or> multiplier level = Finite 1"
  by (simp add: multiplier_def lit_simps)

lemma multiplier_positive: "\<exists>m. multiplier level = Finite m \<and> 0 < m"
  using multiplier_cases [of level] by auto

lemma mk_float_not_nan: "\<not> is_nan (mk_float neg q)"
  by (simp add: mk_float_def Let_def)

lemma adjusted_not_nan:
  assumes "fge rate (lit 0)"
  shows "\<not> is_nan (adjusted rate level)"
proof -
  obtain m where m: "multiplier level = Finite m" "0 < m"
    using multiplier_positive by blast
  from assms have "\<not> is_nan rate" by (simp add: fge_def)
  then show ?thesis using m
    by (cases rate) (simp_all add: adjusted_def fmul_def mk_float_not_nan is_zero_def signed_inf_def)
qed

lemma not_fge_Finite: "\<not> is_nan a \<Longrightarrow> (\<not> fge a (Finite c)) = flt a (Finite c)"
  by (cases a) (auto simp: fge_def flt_def)

lemma flt_Finite_trans: "flt a (Finite c) \<Longrightarrow> c \<le> d \<Longrightarrow> flt a (Finite d)"
  by (cases a) (auto simp: flt_def)

section \<open>The salary formatter\<close>

text \<open>
  C1, as the code has it. The level \<open>Mid-Level\<close> has a branch of its own (line 36) with
  the multiplier \<open>1.2\<close>: for every rate and country the formatter renders the rate times
  \<open>1.2\<close>, and \<open>format_salary(120000, "India", "Mid-Level")\<close> is the rupee sign followed by
  \<open>1.4 Lakh\<close> (\<open>120000 * 1.2\<close> is \<open>144000.0\<close> in binary64).
\<close>

theorem mid_level_multiplier:
  "multiplier (ustr ''Mid-Level'') = lit (6 / 5)
   \<and> format_salary rate ctry (ustr ''Mid-Level'') = render (fmul rate (lit (6 / 5))) ctry
   \<and> adjusted (Finite 120000) (ustr ''Mid-Level'') = Finite 144000
   \<and> format_salary (Finite 120000) (ustr ''India'') (ustr ''Mid-Level'')
       = rupee @ ustr ''1.4 Lakh''"
proof -
  have m: "multiplier (ustr ''Mid-Level'') = lit (6 / 5)"
    by (simp add: multiplier_def ustr_Cons ustr_Nil)
  then have "format_salary rate ctry (ustr ''Mid-Level'')
             = render (fmul rate (lit (6 / 5))) ctry"
    by (simp add: format_salary_def adjusted_def)
  with m show ?thesis
    using adjusted_120000_mid format_salary_120000_mid by simp
qed

text \<open>
  C1 as the specification states it fails: the multiplier of \<open>Mid-Level\<close> is not \<open>1.0\<close>,
  and \<open>format_salary(120000, "India", "Mid-Level")\<close> is not the rupee sign followed by
  \<open>1.2 Lakh\<close>.
\<close>

theorem mid_level_base_multiplier_counterexample:
  "multiplier (ustr ''Mid-Level'') \<noteq> lit 1
   \<and> format_salary (Finite 120000) (ustr ''India'') (ustr ''Mid-Level'')
       \<noteq> rupee @ ustr ''1.2 Lakh''"
  by (simp only: multiplier_mid lit_1 format_salary_120000_mid) (simp add: ustr_def)

text \<open>
  C5, as the code has it. \<open>format_salary(150000, "United States", "Senior")\<close> computes the
  adjusted rate \<open>225000\<close> and the quotient \<open>2.25\<close>, which binary64 holds exactly; the
  format \<open>.1f\<close> rounds the tie to the even digit, so the result is \<open>$2.2K\<close>.
\<close>

theorem senior_us_salary:
  "adjusted (Finite 150000) (ustr ''Senior'') = Finite 225000
   \<and> fdiv (Finite 225000) (lit 100000) = Finite (9 / 4)
   \<and> format_salary (Finite 150000) (ustr ''United States'') (ustr ''Senior'') = ustr ''$2.2K''"
  by (simp only: adjusted_150000_senior fdiv_225000 lit_100000 format_salary_150000_senior)

text \<open>
  C5 as the specification states it fails: the string returned is not \<open>$2.3K\<close>.
\<close>

theorem senior_us_salary_counterexample:
  "format_salary (Finite 150000) (ustr ''United States'') (ustr ''Senior'') \<noteq> ustr ''$2.3K''"
  by (simp only: format_salary_150000_senior) (simp add: ustr_def)

text \<open>
  C4. For every rate, country and level the formatter renders \<open>rate * multiplier\<close>, a
  binary64 product, where the multiplier is \<open>0.8\<close> for \<open>Fresher\<close>, \<open>1.5\<close> for \<open>Senior\<close>, and
  \<open>1.0\<close> for a level that is none of \<open>Fresher\<close>, \<open>Mid-Level\<close>, \<open>Senior\<close>. The three
  multipliers are the binary64 values of the literals. The rate \<open>100\<close> is adjusted to
  \<open>80\<close>, \<open>150\<close> and \<open>100\<close> and shown as \<open>$80.00/hr\<close>, \<open>$150.00/hr\<close> and \<open>$100.00/hr\<close>; the rate
  \<open>7\<close> at \<open>Fresher\<close> is adjusted to the binary64 product \<open>5.6000000000000005\<close>.
\<close>

theorem experience_multiplier:
  "format_salary rate ctry level = render (adjusted rate level) ctry
   \<and> adjusted rate level = fmul rate (multiplier level)
   \<and> multiplier (ustr ''Fresher'') = lit (4 / 5)
   \<and> lit (4 / 5) = Finite (3602879701896397 / 4503599627370496)
   \<and> multiplier (ustr ''Senior'') = lit (3 / 2)
   \<and> lit (3 / 2) = Finite (3 / 2)
   \<and> (level \<noteq> ustr ''Fresher'' \<and> level \<noteq> ustr ''Mid-Level'' \<and> level \<noteq> ustr ''Senior''
        \<longrightarrow> multiplier level = lit 1)
   \<and> lit 1 = Finite 1
   \<and> adjusted (Finite 100) (ustr ''Fresher'') = Finite 80
   \<and> adjusted (Finite 100) (ustr ''Senior'') = Finite 150
   \<and> adjusted (Finite 100) (ustr ''Intern'') = Finite 100
   \<and> adjusted (Finite 7) (ustr ''Fresher'') = Finite (6305039478318695 / 1125899906842624)
   \<and> format_salary (Finite 100) (ustr ''Peru'') (ustr ''Fresher'') = ustr ''$80.00/hr''
   \<and> format_salary (Finite 100) (ustr ''Peru'') (ustr ''Senior'') = ustr ''$150.00/hr''
   \<and> format_salary (Finite 100) (ustr ''Peru'') (ustr ''Intern'') = ustr ''$100.00/hr''"
proof -
  have g: "format_salary rate ctry level = render (adjusted rate level) ctry
   \<and> adjusted rate level = fmul rate (multiplier level)
   \<and> multiplier (ustr ''Fresher'') = lit (4 / 5)
   \<and> multiplier (ustr ''Senior'') = lit (3 / 2)
   \<and> (level \<noteq> ustr ''Fresher'' \<and> level \<noteq> ustr ''Mid-Level'' \<and> level \<noteq> ustr ''Senior''
        \<longrightarrow> multiplier level = lit 1)"
    by (simp add: format_salary_def adjusted_def multiplier_def ustr_Cons ustr_Nil)
  from g lit_4_5 lit_3_2 lit_1 adjusted_100_fresher adjusted_100_senior adjusted_100_intern
    adjusted_7_fresher format_salary_100_peru_fresher format_salary_100_peru_senior
    format_salary_100_peru_intern
  show ?thesis by blast
qed

text \<open>
  The level \<open>Intern\<close> is none of the three: its multiplier is \<open>1.0\<close>, and the rate \<open>100\<close> in
  Peru is shown as \<open>$100.00/hr\<close>, where \<open>Fresher\<close> gives \<open>$80.00/hr\<close>.
\<close>

theorem experience_multiplier_witness:
  "ustr ''Intern'' \<noteq> ustr ''Fresher'' \<and> ustr ''Intern'' \<noteq> ustr ''Mid-Level''
   \<and> ustr ''Intern'' \<noteq> ustr ''Senior''
   \<and> multiplier (ustr ''Intern'') = Finite 1
   \<and> adjusted (Finite 100) (ustr ''Intern'') = Finite 100
   \<and> format_salary (Finite 100) (ustr ''Peru'') (ustr ''Intern'') = ustr ''$100.00/hr''
   \<and> adjusted (Finite 100) (ustr ''Fresher'') = Finite 80
   \<and> format_salary (Finite 100) (ustr ''Peru'') (ustr ''Fresher'') = ustr ''$80.00/hr''"
proof -
  have ne: "ustr ''Intern'' \<noteq> ustr ''Fresher'' \<and> ustr ''Intern'' \<noteq> ustr ''Mid-Level''
            \<and> ustr ''Intern'' \<noteq> ustr ''Senior''"
    by (simp add: ustr_Cons ustr_Nil)
  from experience_multiplier [of "Finite 100" "ustr ''Peru''" "ustr ''Intern''"] ne
  have "multiplier (ustr ''Intern'') = lit 1" and "lit 1 = Finite 1"
    and "adjusted (Finite 100) (ustr ''Intern'') = Finite 100"
    and "format_salary (Finite 100) (ustr ''Peru'') (ustr ''Intern'') = ustr ''$100.00/hr''"
    and "adjusted (Finite 100) (ustr ''Fresher'') = Finite 80"
    and "format_salary (Finite 100) (ustr ''Peru'') (ustr ''Fresher'') = ustr ''$80.00/hr''"
    by blast+
  with ne show ?thesis by metis
qed

text \<open>
  C3. For a rate that is \<open>>= 0\<close>, the adjusted rate falls in one of three ranges, and
  the string is chosen by the range and by whether the lowered country contains
  \<open>india\<close>: the rupee sign with \<open>Lakh\<close>, \<open>Thousand\<close> or \<open>/hr\<close>, or the dollar sign with \<open>K\<close>,
  \<open>K\<close> or \<open>/hr\<close>, the number divided by \<open>100000\<close> or \<open>1000\<close> and formatted with one decimal
  in the two upper ranges and with two decimals below. One rate in each range, in
  both currencies: \<open>123456\<close> at \<open>Senior\<close> is \<open>1.9 Lakh\<close> and \<open>$1.9K\<close>, \<open>4321\<close> at \<open>Fresher\<close> is
  \<open>3.5 Thousand\<close> and \<open>$3.5K\<close>, \<open>45.5\<close> at \<open>Senior\<close> is \<open>68.25/hr\<close> and \<open>$68.25/hr\<close>.
  \<open>format_salary(0, "India", "Fresher")\<close> is the rupee sign followed by \<open>0.00/hr\<close>.
\<close>

theorem format_salary_scale:
  fixes rate :: float64 and ctry level :: str
  defines "adj \<equiv> adjusted rate level"
  defines "india \<equiv> str_in (ustr ''india'') (lower ctry)"
  assumes "fge rate (lit 0)"
  shows
   "(fge adj (lit 100000) \<or> (fge adj (lit 1000) \<and> flt adj (lit 100000)) \<or> flt adj (lit 1000))
    \<and> (india \<and> fge adj (lit 100000) \<longrightarrow> format_salary rate ctry level
          = rupee @ format_f 1 (fdiv adj (lit 100000)) @ ustr '' Lakh'')
    \<and> (india \<and> fge adj (lit 1000) \<and> flt adj (lit 100000) \<longrightarrow> format_salary rate ctry level
          = rupee @ format_f 1 (fdiv adj (lit 1000)) @ ustr '' Thousand'')
    \<and> (india \<and> flt adj (lit 1000) \<longrightarrow> format_salary rate ctry level
          = rupee @ format_f 2 adj @ ustr ''/hr'')
    \<and> (\<not> india \<and> fge adj (lit 100000) \<longrightarrow> format_salary rate ctry level
          = ustr ''$'' @ format_f 1 (fdiv adj (lit 100000)) @ ustr ''K'')
    \<and> (\<not> india \<and> fge adj (lit 1000) \<and> flt adj (lit 100000) \<longrightarrow> format_salary rate ctry level
          = ustr ''$'' @ format_f 1 (fdiv adj (lit 1000)) @ ustr ''K'')
    \<and> (\<not> india \<and> flt adj (lit 1000) \<longrightarrow> format_salary rate ctry level
          = ustr ''$'' @ format_f 2 adj @ ustr ''/hr'')
    \<and> format_salary (lit 0) (ustr ''India'') (ustr ''Fresher'') = rupee @ ustr ''0.00/hr''
    \<and> format_salary (Finite 123456) (ustr ''India'') (ustr ''Senior'') = rupee @ ustr ''1.9 Lakh''
    \<and> format_salary (Finite 4321) (ustr ''New India'') (ustr ''Fresher'')
        = rupee @ ustr ''3.5 Thousand''
    \<and> format_salary (Finite (91 / 2)) (ustr ''INDIA'') (ustr ''Senior'') = rupee @ ustr ''68.25/hr''
    \<and> format_salary (Finite 123456) (ustr ''United States'') (ustr ''Senior'') = ustr ''$1.9K''
    \<and> format_salary (Finite 4321) (ustr ''Canada'') (ustr ''Fresher'') = ustr ''$3.5K''
    \<and> format_salary (Finite (91 / 2)) (ustr ''Canada'') (ustr ''Senior'') = ustr ''$68.25/hr''"
proof -
  have nn: "\<not> is_nan adj" unfolding adj_def using assms(3) by (rule adjusted_not_nan)
  have a: "(\<not> fge adj (lit 100000)) = flt adj (lit 100000)"
    using nn by (simp add: lit_100000 not_fge_Finite)
  have b: "(\<not> fge adj (lit 1000)) = flt adj (lit 1000)"
    using nn by (simp add: lit_1000 not_fge_Finite)
  have c: "flt adj (lit 1000) \<Longrightarrow> flt adj (lit 100000)"
    by (simp add: lit_1000 lit_100000 flt_Finite_trans)
  have fs: "format_salary rate ctry level = render adj ctry"
    by (simp add: format_salary_def adj_def)
  have 1: "fge adj (lit 100000) \<or> (fge adj (lit 1000) \<and> flt adj (lit 100000)) \<or> flt adj (lit 1000)"
    using a b by blast
  have 2: "india \<and> fge adj (lit 100000) \<longrightarrow> format_salary rate ctry level
          = rupee @ format_f 1 (fdiv adj (lit 100000)) @ ustr '' Lakh''"
    by (simp add: fs render_def india_def)
  have 3: "india \<and> fge adj (lit 1000) \<and> flt adj (lit 100000) \<longrightarrow> format_salary rate ctry level
          = rupee @ format_f 1 (fdiv adj (lit 1000)) @ ustr '' Thousand''"
    using a by (auto simp add: fs render_def india_def)
  have 4: "india \<and> flt adj (lit 1000) \<longrightarrow> format_salary rate ctry level
          = rupee @ format_f 2 adj @ ustr ''/hr''"
    using a b c by (auto simp add: fs render_def india_def)
  have 5: "\<not> india \<and> fge adj (lit 100000) \<longrightarrow> format_salary rate ctry level
          = ustr ''$'' @ format_f 1 (fdiv adj (lit 100000)) @ ustr ''K''"
    by (simp add: fs render_def india_def)
  have 6: "\<not> india \<and> fge adj (lit 1000) \<and> flt adj (lit 100000) \<longrightarrow> format_salary rate ctry level
          = ustr ''$'' @ format_f 1 (fdiv adj (lit 1000)) @ ustr ''K''"
    using a by (auto simp add: fs render_def india_def)
  have 7: "\<not> india \<and> flt adj (lit 1000) \<longrightarrow> format_salary rate ctry level
          = ustr ''$'' @ format_f 2 adj @ ustr ''/hr''"
    using a b c by (auto simp add: fs render_def india_def)
  from 1 2 3 4 5 6 7 format_salary_0_fresher format_salary_123456_india_senior
    format_salary_4321_new_india_fresher format_salary_91_2_india_senior
    format_salary_123456_us_senior format_salary_4321_canada_fresher
    format_salary_91_2_canada_senior
  show ?thesis by blast
qed


text \<open>
  The rate \<open>56789\<close> in India at level \<open>Mid-Level\<close>: adjusted to \<open>68146.8\<close>, in the middle
  range, and shown as \<open>68.1 Thousand\<close>.
\<close>

theorem format_salary_scale_witness:
  "fge (Finite 56789) (lit 0)
   \<and> format_salary (Finite 56789) (ustr ''India'') (ustr ''Mid-Level'')
       = rupee @ ustr ''68.1 Thousand''"
proof -
  have h: "fge (Finite 56789) (lit 0)" by (simp add: lit_0 fge_def)
  have a: "adjusted (Finite 56789) (ustr ''Mid-Level'')
           = Finite (4683012437232845 / 68719476736)"
    by (rule adjusted_56789_mid)
  have c: "fge (Finite (4683012437232845 / 68719476736)) (lit 1000)
           \<and> flt (Finite (4683012437232845 / 68719476736)) (lit 100000)"
    by (simp add: lit_1000 lit_100000 fge_def flt_def)
  from format_salary_scale [OF h, where level = "ustr ''Mid-Level''" and ctry = "ustr ''India''"]
  have "format_salary (Finite 56789) (ustr ''India'') (ustr ''Mid-Level'')
        = rupee @ format_f 1 (fdiv (Finite (4683012437232845 / 68719476736)) (lit 1000))
            @ ustr '' Thousand''"
    using india_in_India c by (simp only: a)
  then have "format_salary (Finite 56789) (ustr ''India'') (ustr ''Mid-Level'')
        = rupee @ ustr ''68.1'' @ ustr '' Thousand''"
    by (simp only: lit_1000 format_quotient_56789_mid)
  then show ?thesis using h by (simp add: ustr_def)
qed

section \<open>The clean-up\<close>

lemma length_job_types: "length job_types = 5"
  by (simp add: job_types_def)

lemma random_choice_in: "random_choice d \<in> set job_types"
  unfolding random_choice_def by (rule nth_mem) (simp add: length_job_types)

lemma length_data_cleanup: "length (data_cleanup draws df) = length (raw_rows df)"
  by (simp add: data_cleanup_def Let_def)

lemma data_cleanup_nth:
  assumes "i < length (raw_rows df)"
  shows "data_cleanup draws df ! i =
     \<lparr>title = raw_title (raw_rows df ! i),
      avg_hourly_rate = (if is_nan (raw_rate (raw_rows df ! i)) then lit 0
                         else raw_rate (raw_rows df ! i)),
      country = (case raw_country (raw_rows df ! i) of None \<Rightarrow> ustr ''Unknown'' | Some c \<Rightarrow> c),
      job_type = (if \<not> has_job_type df then Some (random_choice (draws i))
                  else fillna_series (map (\<lambda>k. random_choice (draws k)) [0..<length (raw_rows df)])
                         (raw_rows df ! i))\<rparr>"
  using assms by (simp add: data_cleanup_def Let_def)

lemma fillna_series_present: "raw_job_type r = Some t \<Longrightarrow> fillna_series filler r = Some t"
  by (simp add: fillna_series_def)

lemma fillna_series_missing:
  assumes "raw_job_type r = None" "0 \<le> label r" "label r < int (length filler)"
  shows "fillna_series filler r = Some (filler ! nat (label r))"
  using assms by (simp add: fillna_series_def)

lemma fge_lit_0_refl: "fge (lit 0) (lit 0)"
  by (simp add: lit_0 fge_def)

text \<open>
  C6, as the code has it. The clean-up keeps the number of rows and fills what is
  missing, nothing else: a missing rate becomes \<open>0\<close> and a rate that is present is kept,
  so no rate is missing afterwards, and the rate is \<open>>= 0\<close> when it was missing or was
  \<open>>= 0\<close> before; a missing country becomes \<open>Unknown\<close> and a country that is present is
  kept, so it is non-empty unless it was the empty string before; without a column
  \<open>job_type\<close> every job type is one of the five values; with it, a job type that is
  present is kept, and a missing one becomes one of the five values when the label of
  its row is one of \<open>0, ..., len - 1\<close>.
\<close>

theorem data_cleanup_fills:
  fixes draws :: "nat \<Rightarrow> nat" and df :: raw_frame and i :: nat
  defines "r \<equiv> raw_rows df ! i"
  defines "j \<equiv> data_cleanup draws df ! i"
  assumes "i < length (raw_rows df)"
  shows
   "length (data_cleanup draws df) = length (raw_rows df)
    \<and> avg_hourly_rate j = (if is_nan (raw_rate r) then lit 0 else raw_rate r)
    \<and> \<not> is_nan (avg_hourly_rate j)
    \<and> (is_nan (raw_rate r) \<or> fge (raw_rate r) (lit 0) \<longrightarrow> fge (avg_hourly_rate j) (lit 0))
    \<and> country j = (case raw_country r of None \<Rightarrow> ustr ''Unknown'' | Some c \<Rightarrow> c)
    \<and> (raw_country r \<noteq> Some [] \<longrightarrow> country j \<noteq> [])
    \<and> (\<not> has_job_type df \<longrightarrow> job_type j \<in> Some ` set job_types)
    \<and> (has_job_type df \<and> raw_job_type r \<noteq> None \<longrightarrow> job_type j = raw_job_type r)
    \<and> (has_job_type df \<and> raw_job_type r = None \<and> 0 \<le> label r
          \<and> label r < int (length (raw_rows df))
        \<longrightarrow> job_type j \<in> Some ` set job_types)"
proof -
  have jn: "j = \<lparr>title = raw_title r,
      avg_hourly_rate = (if is_nan (raw_rate r) then lit 0 else raw_rate r),
      country = (case raw_country r of None \<Rightarrow> ustr ''Unknown'' | Some c \<Rightarrow> c),
      job_type = (if \<not> has_job_type df then Some (random_choice (draws i))
                  else fillna_series (map (\<lambda>k. random_choice (draws k)) [0..<length (raw_rows df)]) r)\<rparr>"
    unfolding j_def r_def using assms(3) by (rule data_cleanup_nth)
  have 1: "length (data_cleanup draws df) = length (raw_rows df)"
    by (rule length_data_cleanup)
  have 2: "avg_hourly_rate j = (if is_nan (raw_rate r) then lit 0 else raw_rate r)"
    by (simp add: jn)
  have 3: "\<not> is_nan (avg_hourly_rate j)" by (simp add: 2 lit_0)
  have 4: "is_nan (raw_rate r) \<or> fge (raw_rate r) (lit 0) \<longrightarrow> fge (avg_hourly_rate j) (lit 0)"
    using fge_lit_0_refl by (auto simp add: 2)
  have 5: "country j = (case raw_country r of None \<Rightarrow> ustr ''Unknown'' | Some c \<Rightarrow> c)"
    by (simp add: jn)
  have 6: "raw_country r \<noteq> Some [] \<longrightarrow> country j \<noteq> []"
    by (auto simp add: 5 ustr_Cons split: option.splits)
  have 7: "\<not> has_job_type df \<longrightarrow> job_type j \<in> Some ` set job_types"
    using random_choice_in by (simp add: jn)
  have 8: "has_job_type df \<and> raw_job_type r \<noteq> None \<longrightarrow> job_type j = raw_job_type r"
    by (auto simp add: jn fillna_series_present)
  have 9: "has_job_type df \<and> raw_job_type r = None \<and> 0 \<le> label r
          \<and> label r < int (length (raw_rows df))
        \<longrightarrow> job_type j \<in> Some ` set job_types"
    using random_choice_in by (auto simp add: jn fillna_series_missing)
  from 1 2 3 4 5 6 7 8 9 show ?thesis by blast
qed

text \<open>
  On the sample frame the second row has nothing but a title: after the clean-up its
  rate is \<open>0\<close>, its country \<open>Unknown\<close> and its job type one of the five values, while the
  job type of the first row is the one it had.
\<close>

theorem data_cleanup_fills_witness:
  "1 < length (raw_rows sample_raw)
   \<and> is_nan (raw_rate (raw_rows sample_raw ! 1))
   \<and> raw_country (raw_rows sample_raw ! 1) \<noteq> Some []
   \<and> has_job_type sample_raw \<and> raw_job_type (raw_rows sample_raw ! 1) = None
   \<and> 0 \<le> label (raw_rows sample_raw ! 1)
   \<and> label (raw_rows sample_raw ! 1) < int (length (raw_rows sample_raw))
   \<and> has_job_type sample_raw \<and> raw_job_type (raw_rows sample_raw ! 0) \<noteq> None
   \<and> avg_hourly_rate (data_cleanup id sample_raw ! 1) = lit 0
   \<and> fge (avg_hourly_rate (data_cleanup id sample_raw ! 1)) (lit 0)
   \<and> country (data_cleanup id sample_raw ! 1) = ustr ''Unknown''
   \<and> country (data_cleanup id sample_raw ! 1) \<noteq> []
   \<and> job_type (data_cleanup id sample_raw ! 1) \<in> Some ` set job_types
   \<and> job_type (data_cleanup id sample_raw ! 0) = Some (ustr ''Contract'')"
proof -
  have h1: "1 < length (raw_rows sample_raw)" and h0: "0 < length (raw_rows sample_raw)"
    by (simp_all add: sample_raw_def)
  have r1: "raw_rows sample_raw ! 1 = \<lparr>label = 1, raw_title = Text (ustr ''Nurse''),
      raw_rate = NaN, raw_country = None, raw_job_type = None\<rparr>"
    and r0: "raw_rows sample_raw ! 0 = \<lparr>label = 0, raw_title = Text (ustr ''Data Analyst''),
      raw_rate = Finite 2000, raw_country = Some (ustr ''India''),
      raw_job_type = Some (ustr ''Contract'')\<rparr>"
    and hj: "has_job_type sample_raw" and len: "length (raw_rows sample_raw) = 2"
    by (simp_all add: sample_raw_def)
  from data_cleanup_fills [OF h1, of id] data_cleanup_fills [OF h0, of id] r1 r0 hj len
  show ?thesis by (simp add: fge_lit_0_refl ustr_Cons)
qed

text \<open>
  C6 as the specification states it fails. A row whose rate is \<open>-5\<close>, whose country is
  the empty string and whose job type is \<open>Internship\<close> has nothing missing, so the
  clean-up keeps it as it is: the rate is not \<open>>= 0\<close>, the country is empty, and the job
  type is none of the five values.
\<close>

theorem data_cleanup_invariant_counterexample:
  "data_cleanup id
     \<lparr>has_job_type = True,
      raw_rows = [\<lparr>label = 0, raw_title = Text (ustr ''Clerk''), raw_rate = Finite (- 5),
                   raw_country = Some [], raw_job_type = Some (ustr ''Internship'')\<rparr>]\<rparr>
   = [\<lparr>title = Text (ustr ''Clerk''), avg_hourly_rate = Finite (- 5), country = [],
       job_type = Some (ustr ''Internship'')\<rparr>]
   \<and> \<not> fge (Finite (- 5)) (lit 0)
   \<and> ustr ''Internship'' \<notin> set job_types"
  by (simp add: data_cleanup_def fillna_series_def lit_0 fge_def job_types_def ustr_Cons ustr_Nil)

section \<open>The best match\<close>

lemma argmax_scan_invariant:
  assumes "length pre = i" "best < i" "best_val = (pre @ xs) ! best"
    and "\<forall>j<i. (pre @ xs) ! j \<le> best_val"
    and "\<forall>j<best. (pre @ xs) ! j < best_val"
  shows "argmax_scan best best_val i xs < length (pre @ xs)
    \<and> (\<forall>j<length (pre @ xs). (pre @ xs) ! j \<le> (pre @ xs) ! argmax_scan best best_val i xs)
    \<and> (\<forall>j<argmax_scan best best_val i xs.
          (pre @ xs) ! j < (pre @ xs) ! argmax_scan best best_val i xs)"
  using assms
proof (induction xs arbitrary: pre i best best_val)
  case Nil
  then show ?case by simp
next
  case (Cons x xs)
  have full: "pre @ x # xs = (pre @ [x]) @ xs" by simp
  have at_i: "(pre @ x # xs) ! i = x" using Cons.prems(1) by (simp add: nth_append)
  show ?case
  proof (cases "best_val < x")
    case True
    have le: "\<forall>j<Suc i. ((pre @ [x]) @ xs) ! j \<le> x"
    proof (intro allI impI)
      fix j assume "j < Suc i"
      then consider "j < i" | "j = i" by linarith
      then show "((pre @ [x]) @ xs) ! j \<le> x"
      proof cases
        case 1
        then have "(pre @ x # xs) ! j \<le> best_val" using Cons.prems(4) by blast
        then show ?thesis using True by simp
      next
        case 2
        then show ?thesis using at_i by simp
      qed
    qed
    have lt: "\<forall>j<i. ((pre @ [x]) @ xs) ! j < x"
    proof (intro allI impI)
      fix j assume "j < i"
      then have "(pre @ x # xs) ! j \<le> best_val" using Cons.prems(4) by blast
      then show "((pre @ [x]) @ xs) ! j < x" using True by simp
    qed
    have "argmax_scan i x (Suc i) xs < length ((pre @ [x]) @ xs)
      \<and> (\<forall>j<length ((pre @ [x]) @ xs).
            ((pre @ [x]) @ xs) ! j \<le> ((pre @ [x]) @ xs) ! argmax_scan i x (Suc i) xs)
      \<and> (\<forall>j<argmax_scan i x (Suc i) xs.
            ((pre @ [x]) @ xs) ! j < ((pre @ [x]) @ xs) ! argmax_scan i x (Suc i) xs)"
    proof (rule Cons.IH)
      show "length (pre @ [x]) = Suc i" using Cons.prems(1) by simp
      show "i < Suc i" by simp
      show "x = ((pre @ [x]) @ xs) ! i" using at_i by simp
      show "\<forall>j<Suc i. ((pre @ [x]) @ xs) ! j \<le> x" by (rule le)
      show "\<forall>j<i. ((pre @ [x]) @ xs) ! j < x" by (rule lt)
    qed
    then show ?thesis using True by (simp only: full argmax_scan.simps if_True) blast
  next
    case False
    have le: "\<forall>j<Suc i. ((pre @ [x]) @ xs) ! j \<le> best_val"
    proof (intro allI impI)
      fix j assume "j < Suc i"
      then consider "j < i" | "j = i" by linarith
      then show "((pre @ [x]) @ xs) ! j \<le> best_val"
      proof cases
        case 1
        then show ?thesis using Cons.prems(4) by simp
      next
        case 2
        then show ?thesis using at_i False by simp
      qed
    qed
    have "argmax_scan best best_val (Suc i) xs < length ((pre @ [x]) @ xs)
      \<and> (\<forall>j<length ((pre @ [x]) @ xs).
            ((pre @ [x]) @ xs) ! j \<le> ((pre @ [x]) @ xs) ! argmax_scan best best_val (Suc i) xs)
      \<and> (\<forall>j<argmax_scan best best_val (Suc i) xs.
            ((pre @ [x]) @ xs) ! j < ((pre @ [x]) @ xs) ! argmax_scan best best_val (Suc i) xs)"
    proof (rule Cons.IH)
      show "length (pre @ [x]) = Suc i" using Cons.prems(1) by simp
      show "best < Suc i" using Cons.prems(2) by simp
      show "best_val = ((pre @ [x]) @ xs) ! best" using Cons.prems(3) by simp
      show "\<forall>j<Suc i. ((pre @ [x]) @ xs) ! j \<le> best_val" by (rule le)
      show "\<forall>j<best. ((pre @ [x]) @ xs) ! j < best_val" using Cons.prems(5) by simp
    qed
    then show ?thesis using False by (simp only: full argmax_scan.simps if_False) blast
  qed
qed

lemma argmax_first_max:
  assumes "argmax sim = Inr i"
  shows "i < length sim \<and> (\<forall>j<length sim. sim ! j \<le> sim ! i) \<and> (\<forall>j<i. sim ! j < sim ! i)"
proof (cases sim)
  case Nil
  then show ?thesis using assms by simp
next
  case (Cons x xs)
  then have i: "i = argmax_scan 0 x 1 xs" using assms by simp
  have "argmax_scan 0 x 1 xs < length ([x] @ xs)
    \<and> (\<forall>j<length ([x] @ xs). ([x] @ xs) ! j \<le> ([x] @ xs) ! argmax_scan 0 x 1 xs)
    \<and> (\<forall>j<argmax_scan 0 x 1 xs. ([x] @ xs) ! j < ([x] @ xs) ! argmax_scan 0 x 1 xs)"
    by (rule argmax_scan_invariant) simp_all
  then show ?thesis using Cons i by simp
qed

lemma argmax_nonempty: "sim \<noteq> [] \<Longrightarrow> \<exists>i. argmax sim = Inr i"
  by (cases sim) simp_all


lemma documents_length: "documents lib cs = Inr ds \<Longrightarrow> length ds = length cs"
  by (induction cs arbitrary: ds) (auto split: sum.splits)

lemma documents_Text: "documents lib (map Text ts) = Inr ts"
  by (induction ts) (simp_all add: document_def)

text \<open>
  C7. For a frame held by \<open>df\<close> and a resume text that is not blank: when the frame has
  rows and every title gives a document, the resume section shows the row at a
  position \<open>i\<close> whose score is the greatest of all, and every position before \<open>i\<close> has a
  strictly smaller score, so the row is the first of those with the greatest score;
  the salary shown is \<open>format_salary\<close> of that row at the selected level. When a title
  gives no document the section ends with that exception, and with a frame without
  rows it ends with the exception of \<open>cosine_similarity\<close>. Titles that are texts are
  their own documents, in every library.
\<close>

theorem resume_match_first_maximum:
  assumes "load_jobs df h = Inr corpus" and "strip resume_text \<noteq> []"
  shows
   "(corpus \<noteq> [] \<and> documents lib (map title corpus) = Inr docs \<longrightarrow>
       (\<exists>i<length corpus.
           (\<forall>k<length corpus. score lib resume_text (docs ! k) \<le> score lib resume_text (docs ! i))
           \<and> (\<forall>k<i. score lib resume_text (docs ! k) < score lib resume_text (docs ! i))
           \<and> resume_feedback lib df level resume_text True h
               = (Inr [Resume_Match (title (corpus ! i))
                         (format_salary (avg_hourly_rate (corpus ! i)) (country (corpus ! i)) level)
                         (country (corpus ! i)) (job_type (corpus ! i))], h)))
    \<and> (documents lib (map title corpus) = Inl e \<longrightarrow>
          resume_feedback lib df level resume_text True h = (Inl e, h))
    \<and> (corpus = [] \<longrightarrow>
          resume_feedback lib df level resume_text True h = (Inl ValueError, h))
    \<and> documents lib (map Text texts) = Inr texts"
proof -
  have 1: "corpus \<noteq> [] \<and> documents lib (map title corpus) = Inr docs \<longrightarrow>
       (\<exists>i<length corpus.
           (\<forall>k<length corpus. score lib resume_text (docs ! k) \<le> score lib resume_text (docs ! i))
           \<and> (\<forall>k<i. score lib resume_text (docs ! k) < score lib resume_text (docs ! i))
           \<and> resume_feedback lib df level resume_text True h
               = (Inr [Resume_Match (title (corpus ! i))
                         (format_salary (avg_hourly_rate (corpus ! i)) (country (corpus ! i)) level)
                         (country (corpus ! i)) (job_type (corpus ! i))], h))"
  proof
    assume a: "corpus \<noteq> [] \<and> documents lib (map title corpus) = Inr docs"
    define sim where "sim = map (score lib resume_text) docs"
    have ld: "length docs = length corpus" using a documents_length by fastforce
    then have ne: "docs \<noteq> []" using a by auto
    have len: "length sim = length corpus" using ld by (simp add: sim_def)
    have s: "similarity lib resume_text corpus = Inr sim"
      using a ne by (simp add: similarity_def sim_def)
    have "sim \<noteq> []" using ne by (simp add: sim_def)
    then obtain i where i: "argmax sim = Inr i" using argmax_nonempty by blast
    from argmax_first_max [OF i]
    have p: "i < length corpus" "\<forall>k<length corpus. sim ! k \<le> sim ! i" "\<forall>k<i. sim ! k < sim ! i"
      using len by simp_all
    have nth: "\<And>k. k < length corpus \<Longrightarrow> sim ! k = score lib resume_text (docs ! k)"
      using ld by (simp add: sim_def)
    have le: "\<forall>k<length corpus. score lib resume_text (docs ! k) \<le> score lib resume_text (docs ! i)"
      using p(1,2) nth by simp
    have lt: "\<forall>k<i. score lib resume_text (docs ! k) < score lib resume_text (docs ! i)"
      using p(1,3) nth by simp
    have "resume_feedback lib df level resume_text True h
          = (Inr [Resume_Match (title (corpus ! i))
                    (format_salary (avg_hourly_rate (corpus ! i)) (country (corpus ! i)) level)
                    (country (corpus ! i)) (job_type (corpus ! i))], h)"
      using assms s i p(1) by (simp add: resume_feedback_def Let_def)
    with p(1) le lt show "\<exists>i<length corpus.
           (\<forall>k<length corpus. score lib resume_text (docs ! k) \<le> score lib resume_text (docs ! i))
           \<and> (\<forall>k<i. score lib resume_text (docs ! k) < score lib resume_text (docs ! i))
           \<and> resume_feedback lib df level resume_text True h
               = (Inr [Resume_Match (title (corpus ! i))
                         (format_salary (avg_hourly_rate (corpus ! i)) (country (corpus ! i)) level)
                         (country (corpus ! i)) (job_type (corpus ! i))], h)"
      by blast
  qed
  have 2: "documents lib (map title corpus) = Inl e \<longrightarrow>
          resume_feedback lib df level resume_text True h = (Inl e, h)"
    using assms by (simp add: resume_feedback_def similarity_def)
  have 3: "corpus = [] \<longrightarrow>
          resume_feedback lib df level resume_text True h = (Inl ValueError, h)"
    using assms by (simp add: resume_feedback_def similarity_def)
  from 1 2 3 documents_Text show ?thesis by blast
qed

lemma load_sample: "load_jobs 0 [Jobs sample_jobs] = Inr sample_jobs"
  by (simp add: load_jobs_def load_def)

lemma load_titled: "load_jobs 0 [Jobs titled_jobs] = Inr titled_jobs"
  by (simp add: load_jobs_def load_def)

lemma strip_data_pipelines: "strip (ustr ''data pipelines'') = ustr ''data pipelines''"
  by (simp add: strip_def ustr_Cons ustr_Nil is_space_def)

lemma titled_documents:
  "documents sample_library (map title titled_jobs)
   = Inr [ustr ''Nurse'', ustr ''Data Analyst'', ustr ''Remote Data Engineer'']"
  by (simp add: titled_jobs_def document_def)

lemma sample_documents_strict: "documents strict_library (map title sample_jobs) = Inl ValueError"
  by (simp add: sample_jobs_def document_def strict_library_def invalid_document_def)

lemma titled_scores:
  "score sample_library (ustr ''data pipelines'') (ustr ''Nurse'') = 0"
  "score sample_library (ustr ''data pipelines'') (ustr ''Data Analyst'') = 1"
  "score sample_library (ustr ''data pipelines'') (ustr ''Remote Data Engineer'') = 1"
  by (simp_all add: sample_library_def sample_score_def ustr_Cons ustr_Nil lower_def lower_cp_def)

text \<open>
  A frame of three rows of which the second and the third have the greatest score for
  the text \<open>data pipelines\<close>: the section shows the second row, with its salary at the
  level \<open>Senior\<close>. With a library in which a missing title is no document, the sample
  frame, whose last title is missing, ends the section with the exception.
\<close>

theorem resume_match_first_maximum_witness:
  "load_jobs 0 [Jobs titled_jobs] = Inr titled_jobs
   \<and> strip (ustr ''data pipelines'') \<noteq> []
   \<and> titled_jobs \<noteq> []
   \<and> documents sample_library (map title titled_jobs)
       = Inr [ustr ''Nurse'', ustr ''Data Analyst'', ustr ''Remote Data Engineer'']
   \<and> resume_feedback sample_library 0 (ustr ''Senior'') (ustr ''data pipelines'') True
        [Jobs titled_jobs]
      = (Inr [Resume_Match (Text (ustr ''Data Analyst'')) (rupee @ ustr ''3.0 Thousand'')
                (ustr ''India'') (Some (ustr ''Contract''))], [Jobs titled_jobs])
   \<and> load_jobs 0 [Jobs sample_jobs] = Inr sample_jobs
   \<and> documents strict_library (map title sample_jobs) = Inl ValueError
   \<and> resume_feedback strict_library 0 (ustr ''Senior'') (ustr ''data pipelines'') True
        [Jobs sample_jobs]
      = (Inl ValueError, [Jobs sample_jobs])"
proof -
  have ne: "titled_jobs \<noteq> []" by (simp add: titled_jobs_def)
  have st: "strip (ustr ''data pipelines'') \<noteq> []"
    by (simp only: strip_data_pipelines) (simp add: ustr_def)
  from resume_match_first_maximum [OF load_titled st, where lib = sample_library
      and docs = "[ustr ''Nurse'', ustr ''Data Analyst'', ustr ''Remote Data Engineer'']"
      and level = "ustr ''Senior''"]
    ne titled_documents
  obtain i where i: "i < length titled_jobs"
    and greatest: "\<forall>k<length titled_jobs.
        score sample_library (ustr ''data pipelines'')
          ([ustr ''Nurse'', ustr ''Data Analyst'', ustr ''Remote Data Engineer''] ! k)
        \<le> score sample_library (ustr ''data pipelines'')
          ([ustr ''Nurse'', ustr ''Data Analyst'', ustr ''Remote Data Engineer''] ! i)"
    and first: "\<forall>k<i.
        score sample_library (ustr ''data pipelines'')
          ([ustr ''Nurse'', ustr ''Data Analyst'', ustr ''Remote Data Engineer''] ! k)
        < score sample_library (ustr ''data pipelines'')
          ([ustr ''Nurse'', ustr ''Data Analyst'', ustr ''Remote Data Engineer''] ! i)"
    and res: "resume_feedback sample_library 0 (ustr ''Senior'') (ustr ''data pipelines'') True
        [Jobs titled_jobs]
      = (Inr [Resume_Match (title (titled_jobs ! i))
                (format_salary (avg_hourly_rate (titled_jobs ! i)) (country (titled_jobs ! i))
                   (ustr ''Senior''))
                (country (titled_jobs ! i)) (job_type (titled_jobs ! i))], [Jobs titled_jobs])"
    by blast
  have l3: "length titled_jobs = 3" by (simp add: titled_jobs_def)
  have "i = 0 \<or> i = 1 \<or> i = 2" using i l3 by linarith
  moreover have "i \<noteq> 0"
  proof
    assume i0: "i = 0"
    have "(1::nat) < length titled_jobs" using l3 by simp
    with greatest have
      "score sample_library (ustr ''data pipelines'')
          ([ustr ''Nurse'', ustr ''Data Analyst'', ustr ''Remote Data Engineer''] ! 1)
        \<le> score sample_library (ustr ''data pipelines'')
          ([ustr ''Nurse'', ustr ''Data Analyst'', ustr ''Remote Data Engineer''] ! i)"
      by blast
    then show False using i0 by (simp add: titled_scores)
  qed
  moreover have "i \<noteq> 2"
  proof
    assume i2: "i = 2"
    then have "(1::nat) < i" by simp
    with first have
      "score sample_library (ustr ''data pipelines'')
          ([ustr ''Nurse'', ustr ''Data Analyst'', ustr ''Remote Data Engineer''] ! 1)
        < score sample_library (ustr ''data pipelines'')
          ([ustr ''Nurse'', ustr ''Data Analyst'', ustr ''Remote Data Engineer''] ! i)"
      by blast
    then show False using i2 by (simp add: titled_scores)
  qed
  ultimately have "i = 1" by blast
  then have "resume_feedback sample_library 0 (ustr ''Senior'') (ustr ''data pipelines'') True
        [Jobs titled_jobs]
      = (Inr [Resume_Match (Text (ustr ''Data Analyst''))
                (format_salary (Finite 2000) (ustr ''India'') (ustr ''Senior''))
                (ustr ''India'') (Some (ustr ''Contract''))], [Jobs titled_jobs])"
    using res by (simp add: titled_jobs_def)
  then have r: "resume_feedback sample_library 0 (ustr ''Senior'') (ustr ''data pipelines'') True
        [Jobs titled_jobs]
      = (Inr [Resume_Match (Text (ustr ''Data Analyst'')) (rupee @ ustr ''3.0 Thousand'')
                (ustr ''India'') (Some (ustr ''Contract''))], [Jobs titled_jobs])"
    by (simp only: format_salary_2000_senior)
  from resume_match_first_maximum [OF load_sample st, where lib = strict_library
      and e = ValueError and level = "ustr ''Senior''"] sample_documents_strict
  have e: "resume_feedback strict_library 0 (ustr ''Senior'') (ustr ''data pipelines'') True
        [Jobs sample_jobs] = (Inl ValueError, [Jobs sample_jobs])"
    by blast
  from load_titled st ne titled_documents r load_sample sample_documents_strict e
  show ?thesis by blast
qed

section \<open>The ranking\<close>

lemma is_argsort_length: "is_argsort sim order \<Longrightarrow> length order = length sim"
  unfolding is_argsort_def by (metis length_upt mset_eq_length minus_nat.diff_0)

lemma is_argsort_set: "is_argsort sim order \<Longrightarrow> set order = {..<length sim}"
  unfolding is_argsort_def by (metis atLeast_upt mset_eq_setD)

lemma is_argsort_distinct: "is_argsort sim order \<Longrightarrow> distinct order"
  unfolding is_argsort_def by (metis distinct_upt mset_eq_imp_distinct_iff)

lemma is_argsort_stable: "is_argsort sim (argsort_stable sim)"
  by (simp add: is_argsort_def argsort_stable_def)

lemma top_idx_pos: "0 < k \<Longrightarrow> top_idx k order = rev (drop (length order - k) order)"
  by (simp add: top_idx_def take_last_def)

lemma filter_sorted_wrt_nth:
  assumes "sorted_wrt R (filter P xs)" "a < b" "b < length xs" "P (xs ! a)" "P (xs ! b)"
  shows "R (xs ! a) (xs ! b)"
  using assms
proof (induction xs arbitrary: a b)
  case Nil
  then show ?case by simp
next
  case (Cons x xs)
  from Cons.prems(2) obtain b' where b': "b = Suc b'" by (cases b) auto
  have tail: "sorted_wrt R (filter P xs)" using Cons.prems(1) by (cases "P x") simp_all
  show ?case
  proof (cases a)
    case 0
    then have px: "P x" using Cons.prems(4) by simp
    have "xs ! b' \<in> set (filter P xs)" using Cons.prems(3,5) b' by simp
    then show ?thesis using Cons.prems(1) px 0 b' by simp
  next
    case (Suc a')
    have "R (xs ! a') (xs ! b')"
      using tail Cons.prems(2-5) Suc b' by (intro Cons.IH) simp_all
    then show ?thesis using Suc b' by simp
  qed
qed

lemma argsort_stable_ties:
  assumes "a < b" "b < length (argsort_stable sim)"
    and "sim ! (argsort_stable sim ! a) = sim ! (argsort_stable sim ! b)"
  shows "argsort_stable sim ! a < argsort_stable sim ! b"
proof -
  let ?f = "\<lambda>i. sim ! i"
  let ?o = "argsort_stable sim"
  let ?P = "\<lambda>y. ?f y = ?f (?o ! b)"
  have "filter ?P ?o = filter ?P [0..<length sim]"
    unfolding argsort_stable_def by (rule sort_key_stable)
  moreover have "sorted_wrt (<) (filter ?P [0..<length sim])"
    by (rule sorted_wrt_filter) simp
  ultimately have "sorted_wrt (<) (filter ?P ?o)" by simp
  then show ?thesis using assms by (rule filter_sorted_wrt_nth) simp_all
qed

text \<open>
  C2, as the code has it. For \<open>k >= 1\<close> (the code has \<open>5\<close> and \<open>3\<close>) and every result of
  \<open>argsort\<close> on the scores, \<open>top_idx\<close> has \<open>min(k, len)\<close> positions, all different and in
  range, in descending order of score, and no position left out has a greater score
  than one that is in. The positions are the last \<open>k\<close> of the argsort result, reversed:
  positions with equal scores come in the reverse of the order argsort gave them, and
  with a stable argsort the later position of the frame comes first.
\<close>

theorem top_idx_ranking:
  fixes sim :: "real list" and order :: "nat list" and k :: nat
  defines "ranked \<equiv> top_idx k order"
  defines "stable_ranked \<equiv> top_idx k (argsort_stable sim)"
  assumes "is_argsort sim order" and "0 < k"
  shows
   "length ranked = min k (length sim)
    \<and> distinct ranked \<and> set ranked \<subseteq> {..<length sim}
    \<and> sorted_wrt (\<lambda>x y. y \<le> x) (map (\<lambda>i. sim ! i) ranked)
    \<and> (\<forall>i j. i \<in> set ranked \<and> j < length sim \<and> j \<notin> set ranked \<longrightarrow> sim ! j \<le> sim ! i)
    \<and> ranked = rev (drop (length order - k) order)
    \<and> (\<forall>a b. a < b \<and> b < length stable_ranked \<and> sim ! (stable_ranked ! a) = sim ! (stable_ranked ! b)
          \<longrightarrow> stable_ranked ! b < stable_ranked ! a)"
proof -
  let ?m = "length order - k"
  have ranked: "ranked = rev (drop ?m order)" unfolding ranked_def using assms(4) by (rule top_idx_pos)
  have len: "length order = length sim" using assms(3) by (rule is_argsort_length)
  have 1: "length ranked = min k (length sim)" using len assms(4) by (simp add: ranked)
  have 2: "distinct ranked" using is_argsort_distinct [OF assms(3)] by (simp add: ranked)
  have "set ranked \<subseteq> set order" by (simp add: ranked set_drop_subset)
  then have 3: "set ranked \<subseteq> {..<length sim}" using is_argsort_set [OF assms(3)] by simp
  have srt: "sorted (map (\<lambda>i. sim ! i) order)" using assms(3) by (simp add: is_argsort_def)
  then have "sorted (drop ?m (map (\<lambda>i. sim ! i) order))" by (rule sorted_wrt_drop)
  then have "sorted (rev (map (\<lambda>i. sim ! i) ranked))" by (simp add: ranked drop_map rev_map)
  then have 4: "sorted_wrt (\<lambda>x y. y \<le> x) (map (\<lambda>i. sim ! i) ranked)"
    by (simp add: sorted_wrt_rev)
  have 5: "\<forall>i j. i \<in> set ranked \<and> j < length sim \<and> j \<notin> set ranked \<longrightarrow> sim ! j \<le> sim ! i"
  proof (intro allI impI)
    fix i j assume h: "i \<in> set ranked \<and> j < length sim \<and> j \<notin> set ranked"
    then have i: "i \<in> set (drop ?m order)" by (simp add: ranked)
    have "j \<in> set order" using h is_argsort_set [OF assms(3)] by simp
    then have "j \<in> set (take ?m order) \<union> set (drop ?m order)"
      by (metis append_take_drop_id set_append)
    then have j: "j \<in> set (take ?m order)" using h by (simp add: ranked)
    have "sorted (map (\<lambda>i. sim ! i) (take ?m order @ drop ?m order))" using srt by simp
    then show "sim ! j \<le> sim ! i" using i j
      by (simp only: map_append sorted_append) auto
  qed
  have 6: "\<forall>a b. a < b \<and> b < length stable_ranked
             \<and> sim ! (stable_ranked ! a) = sim ! (stable_ranked ! b)
          \<longrightarrow> stable_ranked ! b < stable_ranked ! a"
  proof (intro allI impI)
    fix a b
    let ?o = "argsort_stable sim"
    let ?d = "drop (length ?o - k) ?o"
    assume h: "a < b \<and> b < length stable_ranked
               \<and> sim ! (stable_ranked ! a) = sim ! (stable_ranked ! b)"
    have st: "stable_ranked = rev ?d" unfolding stable_ranked_def using assms(4) by (rule top_idx_pos)
    have lb: "b < length ?d" and la: "a < length ?d" using h st by simp_all
    have ea: "stable_ranked ! a = ?o ! (length ?o - k + (length ?d - Suc a))"
      using la by (simp add: st rev_nth)
    have eb: "stable_ranked ! b = ?o ! (length ?o - k + (length ?d - Suc b))"
      using lb by (simp add: st rev_nth)
    have "?o ! (length ?o - k + (length ?d - Suc b)) < ?o ! (length ?o - k + (length ?d - Suc a))"
    proof (rule argsort_stable_ties)
      show "length ?o - k + (length ?d - Suc b) < length ?o - k + (length ?d - Suc a)"
        using h lb by linarith
      show "length ?o - k + (length ?d - Suc a) < length ?o" using la by simp
      show "sim ! (?o ! (length ?o - k + (length ?d - Suc b)))
            = sim ! (?o ! (length ?o - k + (length ?d - Suc a)))"
        using h ea eb by simp
    qed
    then show "stable_ranked ! b < stable_ranked ! a" using ea eb by simp
  qed
  from 1 2 3 4 5 ranked 6 show ?thesis by blast
qed

lemma argsort_stable_two: "argsort_stable [0, 0] = [0, 1]"
  by (simp add: argsort_stable_def upt_rec)

text \<open>
  C2 as the specification states it fails. Two rows with the same score, a stable
  argsort and \<open>k = 5\<close>: the ranking has the second row before the first, though the
  first is the earlier one of the frame.
\<close>

theorem corpus_order_ties_counterexample:
  "is_argsort [0, 0] (argsort_stable [0, 0]) \<and> top_idx 5 (argsort_stable [0, 0]) = [1, 0]"
  using is_argsort_stable [of "[0, 0]"]
  by (simp add: argsort_stable_two top_idx_def take_last_def)


text \<open>
  Four scores with a tie and \<open>k = 3\<close>: the ranking has the two tied rows first, the
  later one before the earlier one, then the row with the next score.
\<close>

lemma argsort_stable_sample: "argsort_stable [1 / 5, 9 / 10, 9 / 10, 1 / 10] = [3, 0, 1, 2]"
  by (simp add: argsort_stable_def upt_rec)

theorem top_idx_ranking_witness:
  "is_argsort [1 / 5, 9 / 10, 9 / 10, 1 / 10] (argsort_stable [1 / 5, 9 / 10, 9 / 10, 1 / 10])
   \<and> (0::nat) < 3
   \<and> top_idx 3 (argsort_stable [1 / 5, 9 / 10, 9 / 10, 1 / 10]) = [2, 1, 0]
   \<and> length (top_idx 3 (argsort_stable [1 / 5, 9 / 10, 9 / 10, 1 / 10]))
       = min 3 (length [1 / 5, 9 / 10, 9 / 10, 1 / 10 :: real])
   \<and> sorted_wrt (\<lambda>x y. y \<le> x)
        (map (\<lambda>i. [1 / 5, 9 / 10, 9 / 10, 1 / 10 :: real] ! i)
           (top_idx 3 (argsort_stable [1 / 5, 9 / 10, 9 / 10, 1 / 10])))"
proof -
  have a: "is_argsort [1 / 5, 9 / 10, 9 / 10, 1 / 10]
             (argsort_stable [1 / 5, 9 / 10, 9 / 10, 1 / 10])"
    by (rule is_argsort_stable)
  have k: "(0::nat) < 3" by simp
  have t: "top_idx 3 (argsort_stable [1 / 5, 9 / 10, 9 / 10, 1 / 10]) = [2, 1, 0]"
    by (simp add: argsort_stable_sample top_idx_def take_last_def)
  from top_idx_ranking [OF a k] a k t show ?thesis by blast
qed

section \<open>The page\<close>

subsection \<open>Running the sections\<close>

lemma strip_blank: "list_all is_space s \<Longrightarrow> strip s = []"
proof -
  assume "list_all is_space s"
  then have d: "dropWhile is_space s = []" by (simp add: list_all_iff)
  show ?thesis unfolding strip_def d by simp
qed

lemma recommendation_engine_frame:
  "take (length h) (snd (recommendation_engine lib df job_input h)) = h"
  by (auto simp: recommendation_engine_def iloc_def select_job_columns_def
      assign_formatted_salary_def reset_index_def alloc_def load_jobs_def load_def
      split: sum.splits prod.splits frame.splits if_splits)

lemma listing_frame: "take (length h) (snd (listing df keep none_found h)) = h"
  by (auto simp: listing_def mask_rows_def select_job_columns_def
      assign_formatted_salary_def reset_index_def alloc_def load_jobs_def load_def
      split: sum.splits prod.splits frame.splits if_splits)

lemma skill_gap_analyzer_frame:
  "take (length h) (snd (skill_gap_analyzer lib df skills_input h)) = h"
  by (auto simp: skill_gap_analyzer_def iloc_def select_match_columns_def
      reset_index_def alloc_def load_jobs_def load_def
      split: sum.splits prod.splits frame.splits if_splits)

lemma resume_feedback_frame: "snd (resume_feedback lib df level resume_text pressed h) = h"
  by (auto simp: resume_feedback_def Let_def split: sum.splits)

lemma frame_kept:
  assumes "take (length h) h' = h" "load_jobs df h = Inr corpus"
  shows "load_jobs df h' = Inr corpus"
proof -
  from assms(2) have d: "df < length h" by (auto simp: load_jobs_def load_def split: if_splits)
  have "length (take (length h) h') = length h" using assms(1) by simp
  then have "length h \<le> length h'" by simp
  moreover have "h' ! df = h ! df" using assms(1) d by (metis nth_take)
  ultimately show ?thesis using assms(2) d by (simp add: load_jobs_def load_def)
qed

lemma listing_run:
  assumes "load_jobs df h = Inr corpus"
  shows "listing df keep none_found h =
     (if filter keep corpus = [] then
        (Inr [Warning none_found], h @ [Jobs [], Jobs []])
      else
        (Inr [Dataframe (With_Salary
           (map (\<lambda>x. (x, format_salary (avg_hourly_rate x) (country x) (ustr ''Mid-Level'')))
              (filter keep corpus)))],
         h @ [Jobs (filter keep corpus),
              With_Salary
                (map (\<lambda>x. (x, format_salary (avg_hourly_rate x) (country x) (ustr ''Mid-Level'')))
                   (filter keep corpus)),
              With_Salary
                (map (\<lambda>x. (x, format_salary (avg_hourly_rate x) (country x) (ustr ''Mid-Level'')))
                   (filter keep corpus))]))"
  using assms
  by (simp add: listing_def mask_rows_def select_job_columns_def assign_formatted_salary_def
      reset_index_def alloc_def load_jobs_def load_def nth_append list_update_append)

lemma recommendation_engine_run:
  assumes "load_jobs df h = Inr corpus" "job_input \<noteq> []"
    and "similarity lib job_input corpus = Inr sim"
    and "list_all (\<lambda>i. i < length corpus) (top_idx 5 (argsort lib sim))"
  shows "recommendation_engine lib df job_input h =
     (Inr [Top_Recommended (With_Salary
        (map (\<lambda>x. (x, format_salary (avg_hourly_rate x) (country x) (ustr ''Mid-Level'')))
           (map (\<lambda>i. corpus ! i) (top_idx 5 (argsort lib sim)))))],
      h @ [Jobs (map (\<lambda>i. corpus ! i) (top_idx 5 (argsort lib sim))),
           With_Salary
             (map (\<lambda>x. (x, format_salary (avg_hourly_rate x) (country x) (ustr ''Mid-Level'')))
                (map (\<lambda>i. corpus ! i) (top_idx 5 (argsort lib sim)))),
           With_Salary
             (map (\<lambda>x. (x, format_salary (avg_hourly_rate x) (country x) (ustr ''Mid-Level'')))
                (map (\<lambda>i. corpus ! i) (top_idx 5 (argsort lib sim))))])"
  using assms
  by (simp add: recommendation_engine_def iloc_def select_job_columns_def
      assign_formatted_salary_def reset_index_def alloc_def load_jobs_def load_def nth_append
      list_update_append)

lemma recommendation_engine_shown:
  assumes "recommendation_engine lib df job_input h = (Inr shown, h')" "job_input \<noteq> []"
    and "load_jobs df h = Inr corpus"
  shows "\<exists>js. set js \<subseteq> set corpus \<and> shown = [Top_Recommended (With_Salary
           (map (\<lambda>x. (x, format_salary (avg_hourly_rate x) (country x) (ustr ''Mid-Level''))) js))]"
proof -
  let ?sim = "similarity lib job_input corpus"
  from assms obtain sim where sim: "?sim = Inr sim"
    by (cases ?sim) (simp_all add: recommendation_engine_def)
  let ?idx = "top_idx 5 (argsort lib sim)"
  have ok: "list_all (\<lambda>i. i < length corpus) ?idx"
    using assms sim by (auto simp: recommendation_engine_def iloc_def split: if_splits)
  let ?js = "map (\<lambda>i. corpus ! i) ?idx"
  have sub: "set ?js \<subseteq> set corpus" using ok by (auto simp: list_all_iff)
  from recommendation_engine_run [OF assms(3,2) sim ok] assms(1)
  have "shown = [Top_Recommended (With_Salary
           (map (\<lambda>x. (x, format_salary (avg_hourly_rate x) (country x) (ustr ''Mid-Level''))) ?js))]"
    by simp
  with sub show ?thesis by blast
qed


lemma sample_scores_data:
  "similarity sample_library (ustr ''data'') sample_jobs = Inr [1, 1, 0]"
  by (simp add: similarity_def document_def sample_library_def sample_jobs_def sample_score_def
      ustr_Cons ustr_Nil lower_def lower_cp_def)

lemma sample_top_idx: "top_idx 5 (argsort sample_library [1, 1, 0]) = [1, 0, 2]"
  by (simp add: sample_library_def argsort_stable_def upt_rec top_idx_def take_last_def)

lemma sample_recommendation:
  "recommendation_engine sample_library 0 (ustr ''data'') [Jobs sample_jobs] =
     (Inr [Top_Recommended (With_Salary
        (map (\<lambda>x. (x, format_salary (avg_hourly_rate x) (country x) (ustr ''Mid-Level'')))
           [sample_jobs ! 1, sample_jobs ! 0, sample_jobs ! 2]))],
      [Jobs sample_jobs,
       Jobs [sample_jobs ! 1, sample_jobs ! 0, sample_jobs ! 2],
       With_Salary
         (map (\<lambda>x. (x, format_salary (avg_hourly_rate x) (country x) (ustr ''Mid-Level'')))
            [sample_jobs ! 1, sample_jobs ! 0, sample_jobs ! 2]),
       With_Salary
         (map (\<lambda>x. (x, format_salary (avg_hourly_rate x) (country x) (ustr ''Mid-Level'')))
            [sample_jobs ! 1, sample_jobs ! 0, sample_jobs ! 2])])"
proof -
  have q: "ustr ''data'' \<noteq> []" by (simp add: ustr_Cons)
  have ok: "list_all (\<lambda>i. i < length sample_jobs) (top_idx 5 (argsort sample_library [1, 1, 0]))"
    by (simp only: sample_top_idx) (simp add: sample_jobs_def)
  from recommendation_engine_run [OF load_sample q sample_scores_data ok]
  show ?thesis by (simp only: sample_top_idx) simp
qed

lemma sample_india: "filter (\<lambda>j. Some (country j) = Some (ustr ''India'')) sample_jobs = [sample_jobs ! 0]"
  by (simp add: sample_jobs_def ustr_Cons ustr_Nil)

lemma sample_remote: "filter contains_remote sample_jobs = [sample_jobs ! 1]"
  by (simp add: sample_jobs_def contains_remote_def ustr_Cons ustr_Nil lower_def lower_cp_def)

subsection \<open>Idle sections\<close>

text \<open>
  C8. With an empty search text the recommendation section shows its prompt, and with
  an empty skills text the skill section shows its prompt; with a resume text that is
  empty or made of white space only, the resume section shows its warning. In the
  three cases the result is the same for every library, every address and every heap,
  and the heap is returned as it was: nothing is read and nothing is computed.
\<close>

theorem empty_input_idle:
  "recommendation_engine lib df [] h
     = (Inr [Info (ustr ''Enter a job title or skill to get personalized job recommendations.'')], h)
   \<and> skill_gap_analyzer lib df [] h
     = (Inr [Info (ustr ''Enter your skills (e.g., Python, Excel, Machine Learning) to analyze skill fit and missing gaps.'')], h)
   \<and> (list_all is_space resume_text \<longrightarrow>
        resume_feedback lib df level resume_text True h
          = (Inr [Warning (ustr ''Please paste your resume text before analysis.'')], h))"
  by (simp add: recommendation_engine_def skill_gap_analyzer_def resume_feedback_def strip_blank)

text \<open>A resume text of a space, a tab, a line feed and a no-break space.\<close>

theorem empty_input_idle_witness:
  "list_all is_space [32, 9, 10, 160]
   \<and> resume_feedback sample_library 0 (ustr ''Senior'') [32, 9, 10, 160] True [Jobs sample_jobs]
       = (Inr [Warning (ustr ''Please paste your resume text before analysis.'')],
          [Jobs sample_jobs])"
proof -
  have b: "list_all is_space [32, 9, 10, 160]" by (simp add: is_space_def)
  from empty_input_idle [of sample_library 0 "[Jobs sample_jobs]" "[32, 9, 10, 160]"
      "ustr ''Senior''"] b
  show ?thesis by blast
qed

subsection \<open>The frame is read only\<close>

text \<open>
  C9. When \<open>df\<close> holds the corpus, each of the five sections leaves every frame that
  was on the heap as it was, so \<open>df\<close> holds the same corpus afterwards, for every input
  and whether the section ends with a table, a message or an exception. The frames a
  section makes, and the one that gets the column \<open>Formatted Salary\<close>, are new ones
  behind those that were there. The resume section changes no frame at all.
\<close>

theorem corpus_not_mutated:
  assumes "load_jobs df h = Inr corpus"
  shows
   "take (length h) (snd (recommendation_engine lib df job_input h)) = h
    \<and> load_jobs df (snd (recommendation_engine lib df job_input h)) = Inr corpus
    \<and> take (length h) (snd (filter_by_country df country_select h)) = h
    \<and> load_jobs df (snd (filter_by_country df country_select h)) = Inr corpus
    \<and> take (length h) (snd (remote_jobs df h)) = h
    \<and> load_jobs df (snd (remote_jobs df h)) = Inr corpus
    \<and> take (length h) (snd (skill_gap_analyzer lib df skills_input h)) = h
    \<and> load_jobs df (snd (skill_gap_analyzer lib df skills_input h)) = Inr corpus
    \<and> snd (resume_feedback lib df level resume_text pressed h) = h"
proof -
  have 1: "take (length h) (snd (recommendation_engine lib df job_input h)) = h"
    by (rule recommendation_engine_frame)
  have 2: "take (length h) (snd (filter_by_country df country_select h)) = h"
    unfolding filter_by_country_def by (rule listing_frame)
  have 3: "take (length h) (snd (remote_jobs df h)) = h"
    unfolding remote_jobs_def by (rule listing_frame)
  have 4: "take (length h) (snd (skill_gap_analyzer lib df skills_input h)) = h"
    by (rule skill_gap_analyzer_frame)
  have 5: "snd (resume_feedback lib df level resume_text pressed h) = h"
    by (rule resume_feedback_frame)
  from 1 2 3 4 5 frame_kept [OF 1 assms] frame_kept [OF 2 assms] frame_kept [OF 3 assms]
    frame_kept [OF 4 assms]
  show ?thesis by blast
qed

text \<open>
  The recommendation section on the sample frame makes three new frames, and \<open>df\<close> holds
  the sample rows afterwards.
\<close>

theorem corpus_not_mutated_witness:
  "load_jobs 0 [Jobs sample_jobs] = Inr sample_jobs
   \<and> length (snd (recommendation_engine sample_library 0 (ustr ''data'') [Jobs sample_jobs])) = 4
   \<and> load_jobs 0 (snd (recommendation_engine sample_library 0 (ustr ''data'') [Jobs sample_jobs]))
       = Inr sample_jobs"
proof -
  have "length (snd (recommendation_engine sample_library 0 (ustr ''data'') [Jobs sample_jobs])) = 4"
    by (simp only: sample_recommendation) simp
  with corpus_not_mutated [OF load_sample, of sample_library "ustr ''data''"] load_sample
  show ?thesis by blast
qed

subsection \<open>The level of the tables\<close>

text \<open>
  C10. When \<open>df\<close> holds the corpus: a table of the recommendation section has rows of
  the corpus, each with \<open>format_salary\<close> of its rate and country at the level
  \<open>Mid-Level\<close>; the country listing and the remote listing show their warning when the
  mask keeps no row, and otherwise the rows the mask keeps, each with \<open>format_salary\<close>
  of its rate and country at the level \<open>Mid-Level\<close>. None of the three sections takes
  the level the user selected; the resume section does.
\<close>

theorem tables_format_mid_level:
  assumes "load_jobs df h = Inr corpus"
  shows
   "(job_input \<noteq> [] \<and> recommendation_engine lib df job_input h = (Inr shown, h')
       \<longrightarrow> (\<exists>js. set js \<subseteq> set corpus \<and> shown = [Top_Recommended (With_Salary
              (map (\<lambda>x. (x, format_salary (avg_hourly_rate x) (country x) (ustr ''Mid-Level'')))
                 js))]))
    \<and> fst (filter_by_country df country_select h) =
        (if filter (\<lambda>j. Some (country j) = country_select) corpus = []
         then Inr [Warning (ustr ''No jobs found for this country.'')]
         else Inr [Dataframe (With_Salary
                (map (\<lambda>x. (x, format_salary (avg_hourly_rate x) (country x) (ustr ''Mid-Level'')))
                   (filter (\<lambda>j. Some (country j) = country_select) corpus)))])
    \<and> fst (remote_jobs df h) =
        (if filter contains_remote corpus = []
         then Inr [Warning (ustr ''No remote job listings found.'')]
         else Inr [Dataframe (With_Salary
                (map (\<lambda>x. (x, format_salary (avg_hourly_rate x) (country x) (ustr ''Mid-Level'')))
                   (filter contains_remote corpus)))])"
proof -
  have 1: "job_input \<noteq> [] \<and> recommendation_engine lib df job_input h = (Inr shown, h')
       \<longrightarrow> (\<exists>js. set js \<subseteq> set corpus \<and> shown = [Top_Recommended (With_Salary
              (map (\<lambda>x. (x, format_salary (avg_hourly_rate x) (country x) (ustr ''Mid-Level'')))
                 js))])"
    using recommendation_engine_shown [OF _ _ assms] by blast
  have 2: "fst (filter_by_country df country_select h) =
        (if filter (\<lambda>j. Some (country j) = country_select) corpus = []
         then Inr [Warning (ustr ''No jobs found for this country.'')]
         else Inr [Dataframe (With_Salary
                (map (\<lambda>x. (x, format_salary (avg_hourly_rate x) (country x) (ustr ''Mid-Level'')))
                   (filter (\<lambda>j. Some (country j) = country_select) corpus)))])"
    by (simp add: filter_by_country_def listing_run [OF assms])
  have 3: "fst (remote_jobs df h) =
        (if filter contains_remote corpus = []
         then Inr [Warning (ustr ''No remote job listings found.'')]
         else Inr [Dataframe (With_Salary
                (map (\<lambda>x. (x, format_salary (avg_hourly_rate x) (country x) (ustr ''Mid-Level'')))
                   (filter contains_remote corpus)))])"
    by (simp add: remote_jobs_def listing_run [OF assms])
  from 1 2 3 show ?thesis by blast
qed

text \<open>
  The three tables on the sample frame, for the search text \<open>data\<close> and the country
  \<open>India\<close>.
\<close>

theorem tables_format_mid_level_witness:
  "load_jobs 0 [Jobs sample_jobs] = Inr sample_jobs
   \<and> ustr ''data'' \<noteq> []
   \<and> fst (recommendation_engine sample_library 0 (ustr ''data'') [Jobs sample_jobs])
       = Inr [Top_Recommended (With_Salary
          [(sample_jobs ! 1, format_salary (Finite 150000) (ustr ''United States'') (ustr ''Mid-Level'')),
           (sample_jobs ! 0, format_salary (Finite 2000) (ustr ''India'') (ustr ''Mid-Level'')),
           (sample_jobs ! 2, format_salary (Finite 0) (ustr ''Unknown'') (ustr ''Mid-Level''))])]
   \<and> fst (filter_by_country 0 (Some (ustr ''India'')) [Jobs sample_jobs])
       = Inr [Dataframe (With_Salary
          [(sample_jobs ! 0, format_salary (Finite 2000) (ustr ''India'') (ustr ''Mid-Level''))])]
   \<and> fst (remote_jobs 0 [Jobs sample_jobs])
       = Inr [Dataframe (With_Salary
          [(sample_jobs ! 1, format_salary (Finite 150000) (ustr ''United States'') (ustr ''Mid-Level''))])]"
proof -
  have q: "ustr ''data'' \<noteq> []" by (simp add: ustr_Cons)
  have r: "fst (recommendation_engine sample_library 0 (ustr ''data'') [Jobs sample_jobs])
       = Inr [Top_Recommended (With_Salary
          [(sample_jobs ! 1, format_salary (Finite 150000) (ustr ''United States'') (ustr ''Mid-Level'')),
           (sample_jobs ! 0, format_salary (Finite 2000) (ustr ''India'') (ustr ''Mid-Level'')),
           (sample_jobs ! 2, format_salary (Finite 0) (ustr ''Unknown'') (ustr ''Mid-Level''))])]"
    by (simp only: sample_recommendation) (simp add: sample_jobs_def)
  from tables_format_mid_level [OF load_sample, where country_select = "Some (ustr ''India'')"]
  have "fst (filter_by_country 0 (Some (ustr ''India'')) [Jobs sample_jobs])
       = Inr [Dataframe (With_Salary
          [(sample_jobs ! 0, format_salary (Finite 2000) (ustr ''India'') (ustr ''Mid-Level''))])]
   \<and> fst (remote_jobs 0 [Jobs sample_jobs])
       = Inr [Dataframe (With_Salary
          [(sample_jobs ! 1, format_salary (Finite 150000) (ustr ''United States'') (ustr ''Mid-Level''))])]"
    by (simp only: sample_india sample_remote) (simp add: sample_jobs_def)
  with load_sample q r show ?thesis by blast
qed


end
